theory Spec2Isabelle
  imports Main "HOL-Library.Word" "HOL-Library.Sublist"
begin

text \<open>
  A shallow embedding of \<^verbatim>\<open>src/comment.ts\<close> of changesets-gitlab: the message composer,
  the locator of the bot's earlier comment, the detection of an added changeset, and
  \<open>comment()\<close>, the run that ties them together. What \<^verbatim>\<open>comment.ts\<close> imports (the GitLab
  client, \<open>getUsername\<close>, \<open>getChangedPackages\<close>, \<open>humanId\<close>, \<open>markdownTable\<close>, the
  environment) is a parameter of the model: a promise is the value it settles to, and a
  run is a function from what the collaborators answer to the write call sent, the lines
  logged and the way the promise of \<open>comment()\<close> settles.
\<close>

section \<open>JavaScript strings\<close>

text \<open>
  A JavaScript string is a finite sequence of 16-bit code units. The embedding keeps that
  reading: \<open>String.prototype.includes\<close>, \<open>startsWith\<close>, \<open>===\<close> and the regular
  expressions of \<^verbatim>\<open>comment.ts\<close> (none carries the \<^verbatim>\<open>u\<close> flag) all work on code units.
  \<open>js\<close> embeds an ASCII literal; the three emoji of the templates are written as
  their code units.
\<close>

type_synonym code_unit = "16 word"
type_synonym jsstring = "code_unit list"

definition js :: "string \<Rightarrow> jsstring" where
  "js s = map of_char s"

text \<open>\<open>haystack.includes(needle)\<close>: the needle occurs as a contiguous run.\<close>

definition includes_str :: "jsstring \<Rightarrow> jsstring \<Rightarrow> bool" where
  "includes_str haystack needle = sublist needle haystack"

text \<open>\<open>s.startsWith(p)\<close>.\<close>

definition startsWith :: "jsstring \<Rightarrow> jsstring \<Rightarrow> bool" where
  "startsWith s p = prefix p s"

text \<open>
  \<open>`${n}`\<close> for the length of an array: the decimal digits of a natural number, without
  leading zeros.
\<close>

definition digit :: "nat \<Rightarrow> code_unit" where
  "digit d = of_nat (48 + d)"

function numberToString :: "nat \<Rightarrow> jsstring" where
  "numberToString n =
     (if n < 10 then [digit n] else numberToString (n div 10) @ [digit (n mod 10)])"
  by pat_completeness auto
termination
  by (relation "measure (\<lambda>n. n)") auto

declare numberToString.simps [simp del]

text \<open>\<open>xs.join(sep)\<close>.\<close>

fun join :: "jsstring list \<Rightarrow> jsstring \<Rightarrow> jsstring" where
  "join [] sep = []"
| "join [x] sep = x"
| "join (x # y # ys) sep = x @ sep @ join (y # ys) sep"

section \<open>Release plans\<close>

text \<open>
  \<open>ReleasePlan\<close> of \<^verbatim>\<open>@changesets/types\<close>, cut down to the fields \<^verbatim>\<open>comment.ts\<close> reads:
  the name and bump type of every release, and the list of changesets (only its length
  is read). \<open>ReleasePlan | null\<close> is \<open>ReleasePlan option\<close>.
\<close>

datatype VersionType = major | minor | patch | none

record ComprehensiveRelease =
  name :: jsstring
  type :: VersionType

record ReleasePlan =
  releases :: "ComprehensiveRelease list"
  changesets :: "jsstring list"

section \<open>Message composer\<close>

definition generatedByBotNote :: jsstring where
  "generatedByBotNote = js ''Generated By Changesets GitLab Bot''"

text \<open>
  \<open>markdownTable\<close> comes from the npm package \<^verbatim>\<open>markdown-table\<close>; it is a parameter of the
  composer. Its argument is a list of rows of cells, a cell being a string or
  \<open>undefined\<close> (\<open>None\<close>).
\<close>

type_synonym markdown_table = "jsstring option list list \<Rightarrow> jsstring"

definition publishableReleases :: "ReleasePlan \<Rightarrow> ComprehensiveRelease list" where
  "publishableReleases releasePlan = filter (\<lambda>x. type x \<noteq> none) (releases releasePlan)"

text \<open>
  The object literal \<open>{ major: 'Major', minor: 'Minor', patch: 'Patch' }[x.type]\<close>; for
  \<open>none\<close> the lookup gives \<open>undefined\<close>.
\<close>

fun typeLabel :: "VersionType \<Rightarrow> jsstring option" where
  "typeLabel major = Some (js ''Major'')"
| "typeLabel minor = Some (js ''Minor'')"
| "typeLabel patch = Some (js ''Patch'')"
| "typeLabel none = None"

text \<open>The rows handed to \<open>markdownTable\<close>: the header, then one row for each publishable release.\<close>

definition tableRows :: "ReleasePlan \<Rightarrow> jsstring option list list" where
  "tableRows releasePlan =
     [Some (js ''Name''), Some (js ''Type'')] #
     map (\<lambda>x. [Some (name x), typeLabel (type x)]) (publishableReleases releasePlan)"

definition getReleasePlanMessage :: "markdown_table \<Rightarrow> ReleasePlan option \<Rightarrow> jsstring" where
  "getReleasePlanMessage markdownTable releasePlan =
     (case releasePlan of
        None \<Rightarrow> []
      | Some plan \<Rightarrow>
          js ''<details><summary>This MR includes '' @
          (if length (changesets plan) > 0
           then js ''changesets to release '' @
                (if length (publishableReleases plan) = 1
                 then js ''1 package''
                 else numberToString (length (publishableReleases plan)) @ js '' packages'')
           else js ''no changesets'') @
          js ''</summary>\<newline>\<newline>  '' @
          (if length (publishableReleases plan) > 0
           then markdownTable (tableRows plan)
           else js ''When changesets are added to this MR, you'll see the packages that this MR includes changesets for and the associated semver types'') @
          js ''\<newline>\<newline></details>'')"

definition getAbsentMessage ::
  "markdown_table \<Rightarrow> jsstring \<Rightarrow> jsstring \<Rightarrow> ReleasePlan option \<Rightarrow> jsstring" where
  "getAbsentMessage markdownTable commitSha addChangesetUrl releasePlan =
     js ''###  '' @ [0x26A0, 0xFE0F] @ js ''  No Changeset found\<newline>\<newline>Latest commit: '' @
     commitSha @
     js ''\<newline>\<newline>Merging this MR will not cause a version bump for any packages. If these changes should not result in a new version, you're good to go. **If these changes should result in a version bump, you need to add a changeset.**\<newline>\<newline>'' @
     getReleasePlanMessage markdownTable releasePlan @
     js ''\<newline>\<newline>[Click here to learn what changesets are, and how to add one](https://github.com/changesets/changesets/blob/master/docs/adding-a-changeset.md).\<newline>\<newline>[Click here if you're a maintainer who wants to add a changeset to this MR]('' @
     addChangesetUrl @
     js '')\<newline>\<newline>__'' @ generatedByBotNote @ js ''__\<newline>''"

definition getApproveMessage ::
  "markdown_table \<Rightarrow> jsstring \<Rightarrow> jsstring \<Rightarrow> ReleasePlan option \<Rightarrow> jsstring" where
  "getApproveMessage markdownTable commitSha addChangesetUrl releasePlan =
     js ''###  '' @ [0xD83E, 0xDD8B] @ js ''  Changeset detected\<newline>\<newline>Latest commit: '' @
     commitSha @
     js ''\<newline>\<newline>**The changes in this MR will be included in the next version bump.**\<newline>\<newline>'' @
     getReleasePlanMessage markdownTable releasePlan @
     js ''\<newline>\<newline>Not sure what this means? [Click here  to learn what changesets are](https://github.com/changesets/changesets/blob/master/docs/adding-a-changeset.md).\<newline>\<newline>[Click here if you're a maintainer who wants to add another changeset to this MR]('' @
     addChangesetUrl @
     js '')\<newline>\<newline>__'' @ generatedByBotNote @ js ''__\<newline>''"

section \<open>JavaScript values\<close>

text \<open>
  The values that \<^verbatim>\<open>comment.ts\<close> throws, catches and inspects. An object is known by its own
  enumerable string-keyed properties, in order (what \<open>Object.keys\<close> lists). A
  \<open>Request\<close> or \<open>Response\<close> is known by what its \<open>text()\<close> call settles to: \<open>Some t\<close> resolves
  to \<open>t\<close>, \<open>None\<close> rejects; its accessors live on the prototype, so it has no own
  enumerable key. An error object (\<open>Object.prototype.toString\<close> gives
  \<^verbatim>\<open>[object Error]\<close>) carries its class, its \<open>message\<close>, its \<open>cause\<close> (both own but not
  enumerable; \<open>JUndefined\<close> when the error has no cause) and its own enumerable
  properties. Numbers are cut down to the integers; functions are not modelled.
\<close>

datatype ErrorClass = PlainError | ValidationError | URIError

datatype JSValue =
    JUndefined
  | JNull
  | JBoolean bool
  | JNumber int
  | JString jsstring
  | JObject "(jsstring \<times> JSValue) list"
  | JHttpMessage "jsstring option"
  | JError ErrorClass jsstring JSValue "(jsstring \<times> JSValue) list"

text \<open>A settled promise, or a call that returns or throws: \<open>Inl\<close> is the value thrown.\<close>

type_synonym 'a result = "JSValue + 'a"

fun lookup :: "(jsstring \<times> JSValue) list \<Rightarrow> jsstring \<Rightarrow> JSValue" where
  "lookup [] key = JUndefined"
| "lookup ((k, v) # props) key = (if k = key then v else lookup props key)"

text \<open>\<open>value[key]\<close> on an object, for the keys the code reads.\<close>

fun getProp :: "JSValue \<Rightarrow> jsstring \<Rightarrow> JSValue" where
  "getProp (JObject props) key = lookup props key"
| "getProp (JError cls message cause props) key =
     (if key = js ''cause'' then cause
      else if key = js ''message'' then JString message
      else lookup props key)"
| "getProp v key = JUndefined"

text \<open>\<open>!!value\<close>.\<close>

fun toBoolean :: "JSValue \<Rightarrow> bool" where
  "toBoolean JUndefined = False"
| "toBoolean JNull = False"
| "toBoolean (JBoolean b) = b"
| "toBoolean (JNumber n) = (n \<noteq> 0)"
| "toBoolean (JString s) = (s \<noteq> [])"
| "toBoolean v = True"

fun typeof :: "JSValue \<Rightarrow> jsstring" where
  "typeof JUndefined = js ''undefined''"
| "typeof (JBoolean b) = js ''boolean''"
| "typeof (JNumber n) = js ''number''"
| "typeof (JString s) = js ''string''"
| "typeof v = js ''object''"

text \<open>\<open>Object.keys(value)\<close>, for a value that is an object.\<close>

fun Object_keys :: "JSValue \<Rightarrow> jsstring list" where
  "Object_keys (JObject props) = map fst props"
| "Object_keys (JError cls message cause props) = map fst props"
| "Object_keys v = []"

text \<open>\<open>await value.text()\<close>: \<open>None\<close> when the call throws or the promise rejects.\<close>

fun text_of :: "JSValue \<Rightarrow> jsstring option" where
  "text_of (JHttpMessage t) = t"
| "text_of v = None"

section \<open>Recognising a GitLab API error\<close>

definition GITLAB_API_ERROR_CAUSE_KEYS :: "jsstring set" where
  "GITLAB_API_ERROR_CAUSE_KEYS = {js ''description'', js ''request'', js ''response''}"

fun isError :: "JSValue \<Rightarrow> bool" where
  "isError (JError cls message cause props) = True"
| "isError v = False"

definition isGitLabAPIError :: "JSValue \<Rightarrow> bool" where
  "isGitLabAPIError error =
     (isError error \<and>
      toBoolean (getProp error (js ''cause'')) \<and>
      typeof (getProp error (js ''cause'')) = js ''object'' \<and>
      list_all (\<lambda>key. key \<in> GITLAB_API_ERROR_CAUSE_KEYS)
        (Object_keys (getProp error (js ''cause''))))"

section \<open>Regular expressions\<close>

text \<open>
  Both patterns are anchored at both ends and have no \<^verbatim>\<open>u\<close> or \<^verbatim>\<open>m\<close> flag. Without
  \<^verbatim>\<open>u\<close>, \<open>\\d\<close> is \<open>[0-9]\<close>, \<open>\\w\<close> is \<open>[A-Za-z0-9_]\<close>, and under the \<^verbatim>\<open>i\<close> flag a code
  unit from 128 on never canonicalizes to an ASCII one, so a pattern letter matches its
  two ASCII cases only and \<open>[\\da-z]\<close> is \<open>[0-9A-Za-z]\<close>. \<open>.\<close> matches every code unit but
  the four line terminators.
\<close>

definition isDigit :: "code_unit \<Rightarrow> bool" where
  "isDigit c = (0x30 \<le> c \<and> c \<le> 0x39)"

definition isUpper :: "code_unit \<Rightarrow> bool" where
  "isUpper c = (0x41 \<le> c \<and> c \<le> 0x5A)"

definition isLower :: "code_unit \<Rightarrow> bool" where
  "isLower c = (0x61 \<le> c \<and> c \<le> 0x7A)"

definition isWordChar :: "code_unit \<Rightarrow> bool" where
  "isWordChar c = (isDigit c \<or> isUpper c \<or> isLower c \<or> c = 0x5F)"

definition isAlnum :: "code_unit \<Rightarrow> bool" where
  "isAlnum c = (isDigit c \<or> isUpper c \<or> isLower c)"

definition isLineTerminator :: "code_unit \<Rightarrow> bool" where
  "isLineTerminator c = (c = 0x0A \<or> c = 0x0D \<or> c = 0x2028 \<or> c = 0x2029)"

definition asciiUpper :: "code_unit \<Rightarrow> code_unit" where
  "asciiUpper c = (if isLower c then c - 0x20 else c)"

text \<open>
  \<open>stripCI p s\<close> consumes the pattern text \<open>p\<close> (ASCII) from the front of \<open>s\<close>, ignoring
  case, and returns what is left.
\<close>

fun stripCI :: "jsstring \<Rightarrow> jsstring \<Rightarrow> jsstring option" where
  "stripCI [] s = Some s"
| "stripCI (p # ps) [] = None"
| "stripCI (p # ps) (c # cs) =
     (if asciiUpper c = asciiUpper p then stripCI ps cs else None)"

text \<open>The alternation \<open>(?:project|group)\<close>, tried in that order.\<close>

definition stripScope :: "jsstring \<Rightarrow> jsstring option" where
  "stripScope s =
     (case stripCI (js ''project'') s of
        Some r \<Rightarrow> Some r
      | None \<Rightarrow> stripCI (js ''group'') s)"

text \<open>
  The tail \<open>\\w*)_[\\da-z]+$\<close>. The last group runs to the end of the input and holds no
  underscore, so it is the longest run of letters and digits at the end; the \<open>_\<close> before
  it is the last code unit of what stands in front, and \<open>\\w*\<close> takes the rest of that.
  The result is the text the last group matched.
\<close>

definition randomSuffix :: "jsstring \<Rightarrow> jsstring option" where
  "randomSuffix r =
     (let rnd = rev (takeWhile isAlnum (rev r));
          front = rev (dropWhile isAlnum (rev r))
      in if rnd \<noteq> [] \<and> front \<noteq> [] \<and> last front = 0x5F \<and>
            list_all isWordChar (butlast front)
         then Some rnd
         else None)"

text \<open>
  \<^verbatim>\<open>/^((?:project|group)_\\d+_bot\\w*)_[\\da-z]+$/i\<close>: the result is capture group 1 of
  the match (\<open>s.match(RANDOM_BOT_NAME_PATTERN)?.[1]\<close>), \<open>None\<close> when there is no match.
  Group 1 is the input without the last \<open>_\<close> and the random suffix after it.
\<close>

definition RANDOM_BOT_NAME_PATTERN :: "jsstring \<Rightarrow> jsstring option" where
  "RANDOM_BOT_NAME_PATTERN s =
     (case stripScope s of
        None \<Rightarrow> None
      | Some r1 \<Rightarrow>
          (case stripCI (js ''_'') r1 of
             None \<Rightarrow> None
           | Some r2 \<Rightarrow>
               (if takeWhile isDigit r2 = [] then None
                else
                  (case stripCI (js ''_bot'') (dropWhile isDigit r2) of
                     None \<Rightarrow> None
                   | Some r3 \<Rightarrow>
                       (case randomSuffix r3 of
                          None \<Rightarrow> None
                        | Some rnd \<Rightarrow> Some (take (length s - (length rnd + 1)) s))))))"

text \<open>\<^verbatim>\<open>/^\\.changeset\\/.+\\.md$/\<close>\<open>.test(s)\<close>.\<close>

definition changesetFilePattern :: "jsstring \<Rightarrow> bool" where
  "changesetFilePattern s =
     (prefix (js ''.changeset/'') s \<and>
      suffix (js ''.md'') (drop 11 s) \<and>
      length s > 14 \<and>
      list_all (\<lambda>c. \<not> isLineTerminator c) (take (length s - 14) (drop 11 s)))"

section \<open>Note locator\<close>

text \<open>
  A note (\<open>NoteSchema\<close>, \<open>DiscussionNoteSchema\<close>) with the fields the code reads;
  \<open>note_id\<close> is its field \<open>id\<close>. An item of a listing is a merge request note, which
  has a \<open>noteable_type\<close> (the first argument of \<open>MergeRequestNote\<close>), or a discussion,
  which has none, has a string \<open>id\<close> (the first argument of \<open>Discussion\<close>) and whose
  \<open>notes\<close> may be missing.
\<close>

record Author =
  username :: jsstring

record Note =
  note_id :: int
  author :: Author
  body :: jsstring

datatype DiscussionOrNote =
    MergeRequestNote jsstring Note
  | Discussion jsstring "Note list option"

text \<open>\<open>{ discussionId, noteId }\<close> or \<open>{ noteId }\<close>.\<close>

record NoteInfo =
  discussionId :: "jsstring option"
  noteId :: int

fun isMrNote :: "DiscussionOrNote \<Rightarrow> bool" where
  "isMrNote (MergeRequestNote noteable_type n) = (noteable_type = js ''MergeRequest'')"
| "isMrNote (Discussion d ns) = False"

definition isChangesetBotNote :: "Note \<Rightarrow> jsstring \<Rightarrow> bool \<Rightarrow> bool" where
  "isChangesetBotNote note uname random =
     ((username (author note) = uname \<or>
       (random \<and> RANDOM_BOT_NAME_PATTERN (username (author note)) = Some uname)) \<and>
      includes_str (body note) generatedByBotNote)"

text \<open>The \<open>for\<close> loop of \<open>getNoteInfo\<close> over the listing.\<close>

fun getNoteInfo_loop :: "DiscussionOrNote list \<Rightarrow> jsstring \<Rightarrow> bool \<Rightarrow> NoteInfo option" where
  "getNoteInfo_loop [] uname random = None"
| "getNoteInfo_loop (MergeRequestNote noteable_type n # rest) uname random =
     (if isMrNote (MergeRequestNote noteable_type n)
      then (if isChangesetBotNote n uname random
            then Some \<lparr>discussionId = None, noteId = note_id n\<rparr>
            else getNoteInfo_loop rest uname random)
      else getNoteInfo_loop rest uname random)"
| "getNoteInfo_loop (Discussion d None # rest) uname random =
     getNoteInfo_loop rest uname random"
| "getNoteInfo_loop (Discussion d (Some ns) # rest) uname random =
     (case find (\<lambda>note. isChangesetBotNote note uname False) ns of
        Some changesetBotNote \<Rightarrow>
          Some \<lparr>discussionId = Some d, noteId = note_id changesetBotNote\<rparr>
      | None \<Rightarrow> getNoteInfo_loop rest uname random)"

text \<open>
  The client and \<open>getUsername\<close> (of \<^verbatim>\<open>utils.js\<close>), as the answers they give during one run
  for the run's project and merge request. A read is answered the same way each time it
  is asked. \<open>respond\<close> is what the server answers to a write.
\<close>

datatype ApiCall =
    MergeRequestDiscussions_editNote jsstring jsstring "jsstring option" int jsstring
  | MergeRequestDiscussions_create jsstring jsstring jsstring
  | MergeRequestNotes_edit jsstring jsstring int jsstring
  | MergeRequestNotes_create jsstring jsstring jsstring

record Change =
  new_path :: jsstring
  new_file :: bool

record MergeRequestChangesSchema =
  changes :: "Change list"

record Api =
  MergeRequestDiscussions_all :: "DiscussionOrNote list result"
  MergeRequestNotes_all :: "DiscussionOrNote list result"
  getUsername :: "jsstring result"
  MergeRequests_showChanges :: "MergeRequestChangesSchema result"
  respond :: "ApiCall \<Rightarrow> JSValue result"

function getNoteInfo :: "Api \<Rightarrow> jsstring \<Rightarrow> bool \<Rightarrow> NoteInfo option result" where
  "getNoteInfo api commentType random =
     (case (if commentType = js ''discussion''
            then MergeRequestDiscussions_all api
            else MergeRequestNotes_all api) of
        Inl e \<Rightarrow> Inl e
      | Inr discussionOrNotes \<Rightarrow>
          (case getUsername api of
             Inl e \<Rightarrow> Inl e
           | Inr uname \<Rightarrow>
               (case getNoteInfo_loop discussionOrNotes uname random of
                  Some info \<Rightarrow> Inr (Some info)
                | None \<Rightarrow>
                    if random then Inr None else getNoteInfo api commentType True)))"
  by pat_completeness auto
termination
  by (relation "measure (\<lambda>(api, commentType, random). if random then 0 else 1)") auto

section \<open>Changeset detection\<close>

definition hasChangesetBeenAdded :: "MergeRequestChangesSchema result \<Rightarrow> bool result" where
  "hasChangesetBeenAdded changedFilesPromise =
     (case changedFilesPromise of
        Inl e \<Rightarrow> Inl e
      | Inr changedFiles \<Rightarrow>
          Inr (list_ex
                 (\<lambda>file. new_file file \<and>
                    changesetFilePattern (new_path file) \<and>
                    new_path file \<noteq> js ''.changeset/README.md'')
                 (changes changedFiles)))"

section \<open>The deep link\<close>

text \<open>
  \<open>encodeURIComponent\<close>, as ECMAScript defines it: a code unit of the unreserved set
  (letters, digits and \<^verbatim>\<open>-_.!~*'()\<close>) stands for itself; any other code point is written
  as the \<open>%XX\<close> escapes of its UTF-8 octets; a surrogate that is not part of a pair throws
  a \<open>URIError\<close>.
\<close>

definition uriUnreserved :: "code_unit \<Rightarrow> bool" where
  "uriUnreserved c = (isAlnum c \<or> c \<in> set (js ''-_.!~*'()''))"

definition isLeadSurrogate :: "code_unit \<Rightarrow> bool" where
  "isLeadSurrogate c = (0xD800 \<le> c \<and> c \<le> 0xDBFF)"

definition isTrailSurrogate :: "code_unit \<Rightarrow> bool" where
  "isTrailSurrogate c = (0xDC00 \<le> c \<and> c \<le> 0xDFFF)"

definition utf8 :: "nat \<Rightarrow> nat list" where
  "utf8 v =
     (if v < 0x80 then [v]
      else if v < 0x800 then [0xC0 + v div 0x40, 0x80 + v mod 0x40]
      else if v < 0x10000
        then [0xE0 + v div 0x1000, 0x80 + v div 0x40 mod 0x40, 0x80 + v mod 0x40]
      else [0xF0 + v div 0x40000, 0x80 + v div 0x1000 mod 0x40,
            0x80 + v div 0x40 mod 0x40, 0x80 + v mod 0x40])"

definition hexDigit :: "nat \<Rightarrow> code_unit" where
  "hexDigit h = (if h < 10 then of_nat (48 + h) else of_nat (55 + h))"

definition percentEncode :: "nat list \<Rightarrow> jsstring" where
  "percentEncode octets =
     concat (map (\<lambda>b. [0x25, hexDigit (b div 16), hexDigit (b mod 16)]) octets)"

definition uriMalformed :: JSValue where
  "uriMalformed = JError URIError (js ''URI malformed'') JUndefined []"

definition prepend :: "jsstring \<Rightarrow> jsstring result \<Rightarrow> jsstring result" where
  "prepend s r = (case r of Inl e \<Rightarrow> Inl e | Inr t \<Rightarrow> Inr (s @ t))"

fun encodeURIComponent :: "jsstring \<Rightarrow> jsstring result" where
  "encodeURIComponent [] = Inr []"
| "encodeURIComponent [c] =
     (if uriUnreserved c then Inr [c]
      else if isLeadSurrogate c \<or> isTrailSurrogate c then Inl uriMalformed
      else Inr (percentEncode (utf8 (unat c))))"
| "encodeURIComponent (c # d # ds) =
     (if uriUnreserved c then prepend [c] (encodeURIComponent (d # ds))
      else if isTrailSurrogate c then Inl uriMalformed
      else if \<not> isLeadSurrogate c
        then prepend (percentEncode (utf8 (unat c))) (encodeURIComponent (d # ds))
      else if isTrailSurrogate d
        then prepend
               (percentEncode
                  (utf8 ((unat c - 0xD800) * 0x400 + (unat d - 0xDC00) + 0x10000)))
               (encodeURIComponent ds)
      else Inl uriMalformed)"

definition getNewChangesetTemplate :: "jsstring list \<Rightarrow> jsstring \<Rightarrow> jsstring result" where
  "getNewChangesetTemplate changedPackages title =
     encodeURIComponent
       (js ''---\<newline>'' @
        join (map (\<lambda>x. [0x22] @ x @ [0x22] @ js '': patch'') changedPackages) (js ''\<newline>'') @
        js ''\<newline>---\<newline>\<newline>'' @ title @ js ''\<newline>'')"

section \<open>The run\<close>

text \<open>
  The environment variables the run reads (\<^verbatim>\<open>env.js\<close>). The branch name may be unset;
  the commit message for the deep link is optional.
\<close>

record Env =
  CI_MERGE_REQUEST_SOURCE_BRANCH_NAME :: "jsstring option"
  CI_MERGE_REQUEST_IID :: jsstring
  CI_MERGE_REQUEST_PROJECT_URL :: jsstring
  CI_MERGE_REQUEST_SOURCE_BRANCH_SHA :: jsstring
  CI_MERGE_REQUEST_TITLE :: jsstring
  GITLAB_COMMENT_TYPE :: jsstring
  GITLAB_ADD_CHANGESET_MESSAGE :: "jsstring option"

text \<open>What \<open>getChangedPackages\<close> resolves to.\<close>

record ChangedPackages =
  changedPackages :: "jsstring list"
  releasePlan :: "ReleasePlan option"

text \<open>
  Everything outside \<^verbatim>\<open>comment.ts\<close> that one run meets: the environment,
  \<open>context.projectId\<close>, what \<open>createApi()\<close> returns or throws, how
  \<open>getChangedPackages\<close> (of \<^verbatim>\<open>get-changed-packages.js\<close>) settles for the promise of
  changed paths it is given, the slug \<open>humanId\<close> draws, and \<open>markdownTable\<close>.
\<close>

record World =
  env :: Env
  projectId :: jsstring
  createApi :: "Api result"
  getChangedPackages :: "jsstring list result \<Rightarrow> ChangedPackages result"
  humanId :: jsstring
  markdownTable :: markdown_table

text \<open>What a run leaves behind: the write calls sent, the lines logged, and how the
  promise that \<open>comment()\<close> returns settles.\<close>

datatype Log =
    console_warn "JSValue list"
  | console_error "JSValue list"
  | captureException JSValue

record Outcome =
  calls :: "ApiCall list"
  logs :: "Log list"
  settled :: "JSValue result"

text \<open>
  The \<open>.catch\<close> handler on \<open>getChangedPackages\<close>: the value the promise resolves to, the
  lines the handler logs, and the text it stores in \<open>errFromFetchingChangedFiles\<close>
  (\<open>errorDetails message\<close> for a \<open>ValidationError\<close>, else the initial \<open>''\<close>).
\<close>

definition fallbackPackages :: ChangedPackages where
  "fallbackPackages = \<lparr>changedPackages = [js ''@fake-scope/fake-pkg''], releasePlan = None\<rparr>"

definition errorDetails :: "jsstring \<Rightarrow> jsstring" where
  "errorDetails message =
     js ''<details><summary>'' @ [0xD83D, 0xDCA5] @
     js '' An error occurred when fetching the changed packages and changesets in this MR</summary>\<newline>\<newline>```\<newline>'' @
     message @ js ''\<newline>```\<newline>\<newline></details>\<newline>''"

definition changedPackagesOrFallback ::
  "ChangedPackages result \<Rightarrow> ChangedPackages \<times> Log list \<times> jsstring" where
  "changedPackagesOrFallback promise =
     (case promise of
        Inr r \<Rightarrow> (r, [], [])
      | Inl err \<Rightarrow>
          (case err of
             JError ValidationError message cause props \<Rightarrow>
               (fallbackPackages, [], errorDetails message)
           | _ \<Rightarrow> (fallbackPackages, [console_error [err], captureException err], [])))"

text \<open>\<open>changedFilesPromise.then(x => x.changes.map(x => x.new_path))\<close>.\<close>

definition changedFiles :: "MergeRequestChangesSchema result \<Rightarrow> jsstring list result" where
  "changedFiles changedFilesPromise =
     (case changedFilesPromise of
        Inl e \<Rightarrow> Inl e
      | Inr x \<Rightarrow> Inr (map new_path (changes x)))"

definition addChangesetUrl_of ::
  "Env \<Rightarrow> jsstring \<Rightarrow> jsstring \<Rightarrow> jsstring list \<Rightarrow> jsstring result" where
  "addChangesetUrl_of e mrBranch slug pkgs =
     (case getNewChangesetTemplate pkgs (CI_MERGE_REQUEST_TITLE e) of
        Inl err \<Rightarrow> Inl err
      | Inr template \<Rightarrow>
          (case (case GITLAB_ADD_CHANGESET_MESSAGE e of
                   None \<Rightarrow> Inr []
                 | Some m \<Rightarrow>
                     if m = [] then Inr []
                     else prepend (js ''&commit_message='') (encodeURIComponent m)) of
             Inl err \<Rightarrow> Inl err
           | Inr commitMessage \<Rightarrow>
               Inr (CI_MERGE_REQUEST_PROJECT_URL e @ js ''/-/new/'' @ mrBranch @
                    js ''?file_name=.changeset/'' @ slug @ js ''.md&file='' @
                    template @ commitMessage)))"

definition prComment_of ::
  "markdown_table \<Rightarrow> bool \<Rightarrow> jsstring \<Rightarrow> jsstring \<Rightarrow> ReleasePlan option \<Rightarrow> jsstring \<Rightarrow> jsstring" where
  "prComment_of table hasChangeset latestCommitSha addChangesetUrl plan errFromFetchingChangedFiles =
     (if hasChangeset
      then getApproveMessage table latestCommitSha addChangesetUrl plan
      else getAbsentMessage table latestCommitSha addChangesetUrl plan) @
     errFromFetchingChangedFiles"

definition invalidCommentType :: "jsstring \<Rightarrow> JSValue" where
  "invalidCommentType t =
     JError PlainError
       (js ''Invalid comment type '' @ [0x22] @ t @ [0x22] @ js '', should be '' @
        [0x22] @ js ''discussion'' @ [0x22] @ js '' or '' @ [0x22] @ js ''note'' @ [0x22])
       JUndefined []"

text \<open>
  The third promise of \<open>Promise.all\<close>: \<open>getChangedPackages\<close> on the promise of changed
  paths, with its \<open>.catch\<close> handler.
\<close>

definition discovery :: "World \<Rightarrow> Api \<Rightarrow> ChangedPackages \<times> Log list \<times> jsstring" where
  "discovery w api =
     changedPackagesOrFallback
       (getChangedPackages w (changedFiles (MergeRequests_showChanges api)))"

text \<open>
  The \<open>try\<close> block. It ends in one of two ways: a value is thrown inside it (a rejected
  \<open>await\<close>, or a \<open>throw\<close>), which the \<open>catch\<close> block receives; or it returns the promise
  of one write call. The three promises of \<open>Promise.all\<close> are started together; the
  model takes the first rejection in the order of the array, and keeps what the
  \<open>.catch\<close> handler of the third logs.
\<close>

definition tryBlock :: "World \<Rightarrow> jsstring \<Rightarrow> Api \<Rightarrow> Log list \<times> (JSValue + ApiCall)" where
  "tryBlock w mrBranch api =
     (let latestCommitSha = CI_MERGE_REQUEST_SOURCE_BRANCH_SHA (env w);
          mrIid = CI_MERGE_REQUEST_IID (env w);
          changedFilesPromise = MergeRequests_showChanges api;
          (discovered, handlerLogs, errFromFetchingChangedFiles) = discovery w api
      in (handlerLogs,
          (case getNoteInfo api (GITLAB_COMMENT_TYPE (env w)) False of
             Inl e \<Rightarrow> Inl e
           | Inr noteInfo \<Rightarrow>
               (case hasChangesetBeenAdded changedFilesPromise of
                  Inl e \<Rightarrow> Inl e
                | Inr hasChangeset \<Rightarrow>
                    (case addChangesetUrl_of (env w) mrBranch (humanId w)
                            (changedPackages discovered) of
                       Inl e \<Rightarrow> Inl e
                     | Inr addChangesetUrl \<Rightarrow>
                         (let prComment =
                                prComment_of (markdownTable w) hasChangeset latestCommitSha
                                  addChangesetUrl (releasePlan discovered)
                                  errFromFetchingChangedFiles
                          in if GITLAB_COMMENT_TYPE (env w) = js ''discussion''
                             then (case noteInfo of
                                     Some info \<Rightarrow>
                                       Inr (MergeRequestDiscussions_editNote (projectId w) mrIid
                                              (discussionId info) (noteId info) prComment)
                                   | None \<Rightarrow>
                                       Inr (MergeRequestDiscussions_create (projectId w) mrIid
                                              prComment))
                             else if GITLAB_COMMENT_TYPE (env w) = js ''note''
                             then (case noteInfo of
                                     Some info \<Rightarrow>
                                       Inr (MergeRequestNotes_edit (projectId w) mrIid
                                              (noteId info) prComment)
                                   | None \<Rightarrow>
                                       Inr (MergeRequestNotes_create (projectId w) mrIid
                                              prComment))
                             else Inl (invalidCommentType (GITLAB_COMMENT_TYPE (env w)))))))))"

text \<open>What the \<open>catch\<close> block logs before it throws \<open>err\<close> again.\<close>

definition catchBlock :: "JSValue \<Rightarrow> Log list" where
  "catchBlock err =
     (if isGitLabAPIError err
      then (let cause = getProp err (js ''cause'');
                description = getProp cause (js ''description'');
                request = getProp cause (js ''request'');
                response = getProp cause (js ''response'')
            in [console_error [description],
                (case text_of request of
                   Some t \<Rightarrow> console_error [JString (js ''request:''), JString t]
                 | None \<Rightarrow>
                     console_error
                       [JString (js ''The error's request could not be used as plain text'')]),
                (case text_of response of
                   Some t \<Rightarrow> console_error [JString (js ''response:''), JString t]
                 | None \<Rightarrow>
                     console_error
                       [JString (js ''The error's response could not be used as plain text'')])])
      else [])"

text \<open>
  \<open>comment()\<close>. A write call is returned from inside the \<open>try\<close> block without \<open>await\<close>,
  so its rejection settles the promise of \<open>comment()\<close> without passing through the
  \<open>catch\<close> block.
\<close>

definition comment :: "World \<Rightarrow> Outcome" where
  "comment w =
     (case CI_MERGE_REQUEST_SOURCE_BRANCH_NAME (env w) of
        None \<Rightarrow>
          \<lparr>calls = [],
           logs = [console_warn
                     [JString (js ''[changesets-gitlab:comment] It should only be used on MR'')]],
           settled = Inr JUndefined\<rparr>
      | Some mrBranch \<Rightarrow>
          if mrBranch = []
          then \<lparr>calls = [],
                logs = [console_warn
                          [JString (js ''[changesets-gitlab:comment] It should only be used on MR'')]],
                settled = Inr JUndefined\<rparr>
          else if startsWith mrBranch (js ''changeset-release'')
          then \<lparr>calls = [], logs = [], settled = Inr JUndefined\<rparr>
          else
            (case createApi w of
               Inl e \<Rightarrow> \<lparr>calls = [], logs = [], settled = Inl e\<rparr>
             | Inr api \<Rightarrow>
                 (case tryBlock w mrBranch api of
                    (handlerLogs, Inl err) \<Rightarrow>
                      \<lparr>calls = [], logs = handlerLogs @ catchBlock err, settled = Inl err\<rparr>
                  | (handlerLogs, Inr call) \<Rightarrow>
                      \<lparr>calls = [call], logs = handlerLogs, settled = respond api call\<rparr>)))"

section \<open>Notions used to state the properties\<close>

text \<open>The body a write call carries, and the same call with text appended to its body.\<close>

fun callBody :: "ApiCall \<Rightarrow> jsstring" where
  "callBody (MergeRequestDiscussions_editNote p i d n b) = b"
| "callBody (MergeRequestDiscussions_create p i b) = b"
| "callBody (MergeRequestNotes_edit p i n b) = b"
| "callBody (MergeRequestNotes_create p i b) = b"


text \<open>
  The locator as the specification words it. An item of the listing matches, giving a
  handle, when it is a flat merge request note whose author is the bot (by exact
  username, or, when \<open>random\<close> is set, by the randomized pattern whose captured base name
  is the username) and whose body holds the marker; or when it is a discussion with a
  nested note whose author is the bot by exact username and whose body holds the
  marker, the first such nested note giving the handle. The first item of the listing
  that matches wins.
\<close>

fun itemMatch :: "jsstring \<Rightarrow> bool \<Rightarrow> DiscussionOrNote \<Rightarrow> NoteInfo option" where
  "itemMatch uname random (MergeRequestNote noteable_type n) =
     (if noteable_type = js ''MergeRequest'' \<and>
         (username (author n) = uname \<or>
          (random \<and> RANDOM_BOT_NAME_PATTERN (username (author n)) = Some uname)) \<and>
         includes_str (body n) generatedByBotNote
      then Some \<lparr>discussionId = None, noteId = note_id n\<rparr>
      else None)"
| "itemMatch uname random (Discussion d None) = None"
| "itemMatch uname random (Discussion d (Some ns)) =
     (case filter (\<lambda>n. username (author n) = uname \<and>
                        includes_str (body n) generatedByBotNote) ns of
        [] \<Rightarrow> None
      | n # rest \<Rightarrow> Some \<lparr>discussionId = Some d, noteId = note_id n\<rparr>)"

definition firstMatch :: "jsstring \<Rightarrow> bool \<Rightarrow> DiscussionOrNote list \<Rightarrow> NoteInfo option" where
  "firstMatch uname random items =
     (case List.map_filter (itemMatch uname random) items of
        [] \<Rightarrow> None
      | info # rest \<Rightarrow> Some info)"

text \<open>
  The randomized-name pattern read as a language: \<open>s\<close> matches with capture \<open>cap\<close> when
  \<open>s\<close> is \<open>cap\<close>, an underscore and a non-empty random suffix of letters and digits, and
  \<open>cap\<close> is a scope (\<open>project\<close> or \<open>group\<close>, in any case), an underscore, one or more
  digits, \<open>_bot\<close> (in any case) and any word characters.
\<close>

definition matchesCI :: "jsstring \<Rightarrow> jsstring \<Rightarrow> bool" where
  "matchesCI p s = (map asciiUpper s = map asciiUpper p)"

definition randomBotNameMatch :: "jsstring \<Rightarrow> jsstring \<Rightarrow> bool" where
  "randomBotNameMatch s cap =
     (\<exists>scope digits bot w rnd.
        s = cap @ js ''_'' @ rnd \<and>
        cap = scope @ js ''_'' @ digits @ js ''_'' @ bot @ w \<and>
        (matchesCI (js ''project'') scope \<or> matchesCI (js ''group'') scope) \<and>
        digits \<noteq> [] \<and> list_all isDigit digits \<and>
        matchesCI (js ''bot'') bot \<and>
        list_all isWordChar w \<and>
        rnd \<noteq> [] \<and> list_all isAlnum rnd)"

text \<open>The listing that \<open>getNoteInfo\<close> reads for a comment type.\<close>

definition listing :: "Api \<Rightarrow> jsstring \<Rightarrow> DiscussionOrNote list result" where
  "listing api commentType =
     (if commentType = js ''discussion''
      then MergeRequestDiscussions_all api
      else MergeRequestNotes_all api)"

text \<open>All notes of a listing, flat and nested.\<close>

fun notesOf :: "DiscussionOrNote \<Rightarrow> Note list" where
  "notesOf (MergeRequestNote noteable_type n) = [n]"
| "notesOf (Discussion d None) = []"
| "notesOf (Discussion d (Some ns)) = ns"


text \<open>
  A merge request to run on: two notes, the second left by the bot under a randomized
  login; a diff that adds one changeset file; a discovery that succeeds.
\<close>

definition exampleEnv :: Env where
  "exampleEnv =
     \<lparr>CI_MERGE_REQUEST_SOURCE_BRANCH_NAME = Some (js ''feature''),
      CI_MERGE_REQUEST_IID = js ''7'',
      CI_MERGE_REQUEST_PROJECT_URL = js ''https://gitlab.example.com/g/p'',
      CI_MERGE_REQUEST_SOURCE_BRANCH_SHA = js ''abc123'',
      CI_MERGE_REQUEST_TITLE = js ''Fix'',
      GITLAB_COMMENT_TYPE = js ''note'',
      GITLAB_ADD_CHANGESET_MESSAGE = None\<rparr>"

definition exampleApi :: Api where
  "exampleApi =
     \<lparr>MergeRequestDiscussions_all = Inr [],
      MergeRequestNotes_all =
        Inr [MergeRequestNote (js ''MergeRequest'')
               \<lparr>note_id = 41, author = \<lparr>username = js ''alice''\<rparr>, body = js ''LGTM''\<rparr>,
             MergeRequestNote (js ''MergeRequest'')
               \<lparr>note_id = 42, author = \<lparr>username = js ''project_1_bot_x9''\<rparr>,
                body = js ''__Generated By Changesets GitLab Bot__''\<rparr>],
      getUsername = Inr (js ''project_1_bot''),
      MergeRequests_showChanges =
        Inr \<lparr>changes = [\<lparr>new_path = js ''.changeset/foo.md'', new_file = True\<rparr>]\<rparr>,
      respond = (\<lambda>call. Inr JNull)\<rparr>"

definition exampleWorld :: World where
  "exampleWorld =
     \<lparr>env = exampleEnv,
      projectId = js ''g/p'',
      createApi = Inr exampleApi,
      getChangedPackages =
        (\<lambda>files. Inr \<lparr>changedPackages = [js ''pkg''], releasePlan = None\<rparr>),
      humanId = js ''tidy-cats-sing'',
      markdownTable = (\<lambda>rows. [])\<rparr>"

section \<open>The sentinel marker\<close>


lemma getAbsentMessage_marker:
  "includes_str (getAbsentMessage t sha url plan @ err) generatedByBotNote"
proof -
  have "\<exists>a b. getAbsentMessage t sha url plan @ err = a @ generatedByBotNote @ b"
    unfolding getAbsentMessage_def by (metis append.assoc)
  then show ?thesis
    unfolding includes_str_def sublist_def by blast
qed

lemma getApproveMessage_marker:
  "includes_str (getApproveMessage t sha url plan @ err) generatedByBotNote"
proof -
  have "\<exists>a b. getApproveMessage t sha url plan @ err = a @ generatedByBotNote @ b"
    unfolding getApproveMessage_def by (metis append.assoc)
  then show ?thesis
    unfolding includes_str_def sublist_def by blast
qed

lemma prComment_marker:
  "includes_str (prComment_of t h sha url plan err) generatedByBotNote"
  unfolding prComment_of_def
  by (simp add: getAbsentMessage_marker getApproveMessage_marker)

lemma tryBlock_call_marker:
  "tryBlock w b api = (l, Inr c) \<Longrightarrow> includes_str (callBody c) generatedByBotNote"
  unfolding tryBlock_def Let_def
  by (auto split: sum.splits prod.splits option.splits if_splits simp: prComment_marker)

lemma comment_calls_marker:
  "c \<in> set (calls (comment w)) \<Longrightarrow> includes_str (callBody c) generatedByBotNote"
  unfolding comment_def
  by (auto split: option.splits if_splits sum.splits prod.splits dest: tryBlock_call_marker)

lemma isChangesetBotNote_marker:
  "isChangesetBotNote note uname random \<Longrightarrow> includes_str (body note) generatedByBotNote"
  by (simp add: isChangesetBotNote_def)

lemma getNoteInfo_loop_sound:
  "getNoteInfo_loop items uname random = Some info \<Longrightarrow>
   \<exists>item \<in> set items. \<exists>n \<in> set (notesOf item).
     note_id n = noteId info \<and> isChangesetBotNote n uname random"
proof (induction items uname random rule: getNoteInfo_loop.induct)
  case (4 d ns rest uname random)
  show ?case
  proof (cases "find (\<lambda>note. isChangesetBotNote note uname False) ns")
    case None
    with 4 show ?thesis by auto
  next
    case (Some n)
    then have "n \<in> set ns" "isChangesetBotNote n uname False"
      by (auto simp: find_Some_iff)
    moreover from 4 Some have "noteId info = note_id n" by auto
    ultimately show ?thesis
      by (auto simp: isChangesetBotNote_def intro!: bexI[of _ n])
  qed
qed (auto split: if_splits)

text \<open>
  Claim C3. Every body the bot writes holds the marker \<open>Generated By Changesets GitLab Bot\<close>:
  both messages, for any commit, link and release plan and with any error block appended,
  and so the body of every write call of every run. Conversely a note whose body lacks
  the marker is not a bot note, whatever its author and whether or not the randomized
  pattern is tried; the note a handle of the locator points to holds the marker.
\<close>

theorem sentinel_invariant:
  "includes_str (getAbsentMessage t sha url plan @ err) generatedByBotNote \<and>
   includes_str (getApproveMessage t sha url plan @ err) generatedByBotNote \<and>
   (\<forall>c \<in> set (calls (comment w)). includes_str (callBody c) generatedByBotNote) \<and>
   (\<not> includes_str (body nt) generatedByBotNote \<longrightarrow>
      \<not> isChangesetBotNote nt uname random) \<and>
   (getNoteInfo_loop items uname random = Some info \<longrightarrow>
      (\<exists>item \<in> set items. \<exists>n \<in> set (notesOf item).
         note_id n = noteId info \<and> includes_str (body n) generatedByBotNote))"
  using getAbsentMessage_marker getApproveMessage_marker comment_calls_marker
    isChangesetBotNote_marker getNoteInfo_loop_sound
  by (metis (no_types, lifting))

theorem sentinel_invariant_witness:
  "\<not> includes_str (js ''LGTM'') generatedByBotNote \<and>
   \<not> isChangesetBotNote \<lparr>note_id = 7, author = \<lparr>username = js ''bot''\<rparr>, body = js ''LGTM''\<rparr>
       (js ''bot'') True \<and>
   getNoteInfo_loop
     [MergeRequestNote (js ''MergeRequest'')
        \<lparr>note_id = 7, author = \<lparr>username = js ''bot''\<rparr>, body = js ''LGTM''\<rparr>]
     (js ''bot'') True = None"
proof -
  have m: "\<not> includes_str (js ''LGTM'') generatedByBotNote"
    by (simp add: includes_str_def js_def generatedByBotNote_def sublist_code)
  have n: "\<not> isChangesetBotNote
      \<lparr>note_id = 7, author = \<lparr>username = js ''bot''\<rparr>, body = js ''LGTM''\<rparr> (js ''bot'') True"
    using m sentinel_invariant[where nt = "\<lparr>note_id = 7, author = \<lparr>username = js ''bot''\<rparr>,
      body = js ''LGTM''\<rparr>" and uname = "js ''bot''" and random = True]
    by simp
  from m n show ?thesis by simp
qed

section \<open>The randomized-name pattern\<close>

lemmas class_defs = isDigit_def isUpper_def isLower_def isAlnum_def isWordChar_def asciiUpper_def

lemma stripCI_Some_iff:
  "stripCI p s = Some r \<longleftrightarrow> (\<exists>a. s = a @ r \<and> map asciiUpper a = map asciiUpper p)"
proof (induction p s rule: stripCI.induct)
  case (1 s)
  then show ?case by auto
next
  case (2 p ps)
  then show ?case by auto
next
  case (3 p ps c cs)
  show ?case
  proof (cases "asciiUpper c = asciiUpper p")
    case True
    have "(\<exists>a. c # cs = a @ r \<and> map asciiUpper a = map asciiUpper (p # ps)) \<longleftrightarrow>
          (\<exists>a'. cs = a' @ r \<and> map asciiUpper a' = map asciiUpper ps)"
      using True by (auto simp: Cons_eq_append_conv map_eq_Cons_conv)
    with 3 True show ?thesis by simp
  next
    case False
    then show ?thesis by (auto simp: Cons_eq_append_conv map_eq_Cons_conv)
  qed
qed

lemma asciiUpper_underscore: "asciiUpper c = 0x5F \<longleftrightarrow> c = 0x5F"
proof (cases "0x61 \<le> c \<and> c \<le> 0x7A")
  case True
  then have "0x20 \<le> c" by (simp add: word_le_nat_alt)
  then have "unat (c - 0x20) = unat c - 0x20" by (simp add: unat_sub)
  moreover from True have "0x61 \<le> unat c" "unat c \<le> 0x7A" by (simp_all add: word_le_nat_alt)
  ultimately have "unat (c - 0x20) \<noteq> 0x5F" "unat c \<noteq> 0x5F" by arith+
  then have "c - 0x20 \<noteq> 0x5F" "c \<noteq> 0x5F" by (auto simp: word_unat_eq_iff)
  with True show ?thesis by (simp add: asciiUpper_def isLower_def)
next
  case False
  then show ?thesis by (auto simp: asciiUpper_def isLower_def)
qed

lemma underscore_classes: "\<not> isAlnum 0x5F" "\<not> isDigit 0x5F" "isWordChar 0x5F"
  by (simp_all add: class_defs)

lemma asciiUpper_eq_underscore: "asciiUpper c = asciiUpper 0x5F \<longleftrightarrow> c = 0x5F"
proof -
  have u: "asciiUpper (0x5F :: code_unit) = 0x5F" by (simp add: class_defs)
  show ?thesis unfolding u by (rule asciiUpper_underscore)
qed

lemma matchesCI_underscore: "map asciiUpper a = map asciiUpper (js ''_'') \<longleftrightarrow> a = js ''_''"
  by (auto simp: js_def map_eq_Cons_conv asciiUpper_eq_underscore)

lemma matchesCI_underscore_bot:
  "map asciiUpper a = map asciiUpper (js ''_bot'') \<longleftrightarrow>
   (\<exists>bot. a = js ''_'' @ bot \<and> matchesCI (js ''bot'') bot)"
  by (auto simp: js_def matchesCI_def map_eq_Cons_conv asciiUpper_eq_underscore)

lemma stripScope_iff:
  "stripScope s = Some r \<longleftrightarrow>
   (\<exists>scope. s = scope @ r \<and> (matchesCI (js ''project'') scope \<or> matchesCI (js ''group'') scope))"
proof
  assume "stripScope s = Some r"
  then show "\<exists>scope. s = scope @ r \<and>
      (matchesCI (js ''project'') scope \<or> matchesCI (js ''group'') scope)"
    unfolding stripScope_def matchesCI_def
    by (auto simp: stripCI_Some_iff split: option.splits)
next
  assume "\<exists>scope. s = scope @ r \<and>
      (matchesCI (js ''project'') scope \<or> matchesCI (js ''group'') scope)"
  then obtain scope where s: "s = scope @ r"
    and m: "matchesCI (js ''project'') scope \<or> matchesCI (js ''group'') scope"
    by blast
  from m show "stripScope s = Some r"
  proof
    assume "matchesCI (js ''project'') scope"
    then have "stripCI (js ''project'') s = Some r"
      using s by (auto simp: stripCI_Some_iff matchesCI_def)
    then show ?thesis by (simp add: stripScope_def)
  next
    assume g: "matchesCI (js ''group'') scope"
    then have sg: "stripCI (js ''group'') s = Some r"
      using s by (auto simp: stripCI_Some_iff matchesCI_def)
    from g obtain c cs where sc: "scope = c # cs" and c: "asciiUpper c = asciiUpper 0x67"
      by (auto simp: matchesCI_def js_def map_eq_Cons_conv)
    have "asciiUpper (0x67 :: code_unit) \<noteq> asciiUpper 0x70" by (simp add: class_defs)
    with c have "stripCI (js ''project'') s = None"
      using s sc by (simp add: js_def)
    with sg show ?thesis by (simp add: stripScope_def)
  qed
qed

lemma randomSuffix_iff:
  "randomSuffix r = Some rnd \<longleftrightarrow>
   (\<exists>w. r = w @ js ''_'' @ rnd \<and> list_all isWordChar w \<and> rnd \<noteq> [] \<and> list_all isAlnum rnd)"
proof
  assume a: "randomSuffix r = Some rnd"
  define front where "front = rev (dropWhile isAlnum (rev r))"
  from a have rnd: "rnd = rev (takeWhile isAlnum (rev r))" and ne: "rnd \<noteq> []"
    and f: "front \<noteq> []" "last front = 0x5F" "list_all isWordChar (butlast front)"
    unfolding randomSuffix_def Let_def front_def by (auto split: if_splits)
  have "front @ rnd = rev (takeWhile isAlnum (rev r) @ dropWhile isAlnum (rev r))"
    unfolding front_def rnd by (simp only: rev_append)
  also have "\<dots> = r" by simp
  finally have "r = front @ rnd" by simp
  moreover have "front = butlast front @ js ''_''"
    using append_butlast_last_id[OF f(1)] f(2) by (simp add: js_def)
  moreover have "list_all isAlnum rnd"
    unfolding rnd by (auto simp: list_all_iff dest: set_takeWhileD)
  ultimately show "\<exists>w. r = w @ js ''_'' @ rnd \<and> list_all isWordChar w \<and> rnd \<noteq> [] \<and>
      list_all isAlnum rnd"
    using f ne by (metis append.assoc)
next
  assume "\<exists>w. r = w @ js ''_'' @ rnd \<and> list_all isWordChar w \<and> rnd \<noteq> [] \<and> list_all isAlnum rnd"
  then obtain w where r: "r = w @ js ''_'' @ rnd" and w: "list_all isWordChar w"
    and ne: "rnd \<noteq> []" and al: "list_all isAlnum rnd" by blast
  have rr: "rev r = rev rnd @ 0x5F # rev w" using r by (simp add: js_def)
  have t: "takeWhile isAlnum (rev r) = rev rnd"
    unfolding rr using al underscore_classes(1)
    by (subst takeWhile_append2) (auto simp: list_all_iff)
  have d: "dropWhile isAlnum (rev r) = 0x5F # rev w"
    unfolding rr using al underscore_classes(1)
    by (subst dropWhile_append2) (auto simp: list_all_iff)
  show "randomSuffix r = Some rnd"
    unfolding randomSuffix_def Let_def t d using ne w by simp
qed


lemma digits_bot_iff:
  "takeWhile isDigit r2 \<noteq> [] \<and> stripCI (js ''_bot'') (dropWhile isDigit r2) = Some r3 \<longleftrightarrow>
   (\<exists>digits bot. r2 = digits @ js ''_'' @ bot @ r3 \<and> digits \<noteq> [] \<and>
      list_all isDigit digits \<and> matchesCI (js ''bot'') bot)"
proof
  assume a: "takeWhile isDigit r2 \<noteq> [] \<and>
    stripCI (js ''_bot'') (dropWhile isDigit r2) = Some r3"
  then obtain bot where d: "dropWhile isDigit r2 = (js ''_'' @ bot) @ r3"
    and b: "matchesCI (js ''bot'') bot"
    by (auto simp: stripCI_Some_iff matchesCI_underscore_bot)
  have "r2 = takeWhile isDigit r2 @ dropWhile isDigit r2" by simp
  then have "r2 = takeWhile isDigit r2 @ js ''_'' @ bot @ r3" using d by simp
  moreover have "list_all isDigit (takeWhile isDigit r2)"
    by (auto simp: list_all_iff dest: set_takeWhileD)
  ultimately show "\<exists>digits bot. r2 = digits @ js ''_'' @ bot @ r3 \<and> digits \<noteq> [] \<and>
      list_all isDigit digits \<and> matchesCI (js ''bot'') bot"
    using a b by blast
next
  assume "\<exists>digits bot. r2 = digits @ js ''_'' @ bot @ r3 \<and> digits \<noteq> [] \<and>
      list_all isDigit digits \<and> matchesCI (js ''bot'') bot"
  then obtain digits bot where r2: "r2 = digits @ js ''_'' @ bot @ r3" and ne: "digits \<noteq> []"
    and dg: "list_all isDigit digits" and b: "matchesCI (js ''bot'') bot" by blast
  have r2': "r2 = digits @ 0x5F # (bot @ r3)" using r2 by (simp add: js_def)
  have t: "takeWhile isDigit r2 = digits"
    unfolding r2' using dg underscore_classes(2)
    by (subst takeWhile_append2) (auto simp: list_all_iff)
  have d: "dropWhile isDigit r2 = (js ''_'' @ bot) @ r3"
    unfolding r2' using dg underscore_classes(2)
    by (subst dropWhile_append2) (auto simp: list_all_iff js_def)
  have "stripCI (js ''_bot'') (dropWhile isDigit r2) = Some r3"
    unfolding d stripCI_Some_iff using b matchesCI_underscore_bot by blast
  with t ne show "takeWhile isDigit r2 \<noteq> [] \<and>
    stripCI (js ''_bot'') (dropWhile isDigit r2) = Some r3" by simp
qed

lemma RANDOM_BOT_NAME_PATTERN_unfold:
  "RANDOM_BOT_NAME_PATTERN s = Some cap \<longleftrightarrow>
   (\<exists>r1 r2 r3 rnd. stripScope s = Some r1 \<and> stripCI (js ''_'') r1 = Some r2 \<and>
      (takeWhile isDigit r2 \<noteq> [] \<and> stripCI (js ''_bot'') (dropWhile isDigit r2) = Some r3) \<and>
      randomSuffix r3 = Some rnd \<and> cap = take (length s - (length rnd + 1)) s)"
  unfolding RANDOM_BOT_NAME_PATTERN_def
  by (auto split: option.splits)

lemma RANDOM_BOT_NAME_PATTERN_iff:
  "RANDOM_BOT_NAME_PATTERN s = Some cap \<longleftrightarrow> randomBotNameMatch s cap"
proof
  assume "RANDOM_BOT_NAME_PATTERN s = Some cap"
  then obtain r1 r2 r3 rnd where 1: "stripScope s = Some r1"
    and 2: "stripCI (js ''_'') r1 = Some r2"
    and 3: "takeWhile isDigit r2 \<noteq> [] \<and> stripCI (js ''_bot'') (dropWhile isDigit r2) = Some r3"
    and 4: "randomSuffix r3 = Some rnd"
    and cap: "cap = take (length s - (length rnd + 1)) s"
    unfolding RANDOM_BOT_NAME_PATTERN_unfold by blast
  from 1 obtain scope where s1: "s = scope @ r1"
    and sc: "matchesCI (js ''project'') scope \<or> matchesCI (js ''group'') scope"
    unfolding stripScope_iff by blast
  from 2 have s2: "r1 = js ''_'' @ r2"
    by (auto simp: stripCI_Some_iff matchesCI_underscore)
  from 3 obtain digits bot where s3: "r2 = digits @ js ''_'' @ bot @ r3"
    and dg: "digits \<noteq> []" "list_all isDigit digits" and b: "matchesCI (js ''bot'') bot"
    unfolding digits_bot_iff by blast
  from 4 obtain w where s4: "r3 = w @ js ''_'' @ rnd" and w: "list_all isWordChar w"
    and rn: "rnd \<noteq> []" "list_all isAlnum rnd"
    unfolding randomSuffix_iff by blast
  let ?cap = "scope @ js ''_'' @ digits @ js ''_'' @ bot @ w"
  have s: "s = ?cap @ js ''_'' @ rnd" using s1 s2 s3 s4 by simp
  have "cap = ?cap" unfolding cap by (subst s, subst s) (simp add: js_def)
  with s sc dg b w rn show "randomBotNameMatch s cap"
    unfolding randomBotNameMatch_def by blast
next
  assume "randomBotNameMatch s cap"
  then obtain scope digits bot w rnd where s: "s = cap @ js ''_'' @ rnd"
    and cap: "cap = scope @ js ''_'' @ digits @ js ''_'' @ bot @ w"
    and sc: "matchesCI (js ''project'') scope \<or> matchesCI (js ''group'') scope"
    and dg: "digits \<noteq> []" "list_all isDigit digits" and b: "matchesCI (js ''bot'') bot"
    and w: "list_all isWordChar w" and rn: "rnd \<noteq> []" "list_all isAlnum rnd"
    unfolding randomBotNameMatch_def by blast
  let ?r3 = "w @ js ''_'' @ rnd"
  let ?r2 = "digits @ js ''_'' @ bot @ ?r3"
  let ?r1 = "js ''_'' @ ?r2"
  have "s = scope @ ?r1" using s cap by simp
  with sc have 1: "stripScope s = Some ?r1" unfolding stripScope_iff by blast
  have 2: "stripCI (js ''_'') ?r1 = Some ?r2"
    unfolding stripCI_Some_iff matchesCI_underscore by blast
  have 3: "takeWhile isDigit ?r2 \<noteq> [] \<and>
      stripCI (js ''_bot'') (dropWhile isDigit ?r2) = Some ?r3"
    unfolding digits_bot_iff using dg b by blast
  have 4: "randomSuffix ?r3 = Some rnd"
    unfolding randomSuffix_iff using w rn by blast
  have 5: "cap = take (length s - (length rnd + 1)) s"
    by (subst s, subst s) (simp add: js_def)
  show "RANDOM_BOT_NAME_PATTERN s = Some cap"
    unfolding RANDOM_BOT_NAME_PATTERN_unfold using 1 2 3 4 5 by blast
qed

lemma match_example:
  "RANDOM_BOT_NAME_PATTERN (js ''project_123_bot7x_ab12'') = Some (js ''project_123_bot7x'')"
  by (simp add: RANDOM_BOT_NAME_PATTERN_def stripScope_def randomSuffix_def js_def class_defs
      Let_def)

lemma no_match_example:
  "RANDOM_BOT_NAME_PATTERN (js ''someoneelse'') = None"
  by (simp add: RANDOM_BOT_NAME_PATTERN_def stripScope_def js_def class_defs)

text \<open>
  Claim C4. With random matching enabled, the author login \<open>project_123_bot7x_ab12\<close> is
  accepted for the bot username \<open>project_123_bot7x\<close>: the pattern captures the login
  without its trailing random suffix, and the capture is what is compared (the note is a
  bot note exactly when its body holds the marker). The login \<open>someoneelse\<close> does not
  match the pattern, so with random matching enabled it is accepted for no username but
  \<open>someoneelse\<close> itself.
\<close>

theorem random_name_matcher:
  "RANDOM_BOT_NAME_PATTERN (js ''project_123_bot7x_ab12'') = Some (js ''project_123_bot7x'') \<and>
   isChangesetBotNote
     \<lparr>note_id = i, author = \<lparr>username = js ''project_123_bot7x_ab12''\<rparr>, body = b\<rparr>
     (js ''project_123_bot7x'') True = includes_str b generatedByBotNote \<and>
   RANDOM_BOT_NAME_PATTERN (js ''someoneelse'') = None \<and>
   isChangesetBotNote \<lparr>note_id = i, author = \<lparr>username = js ''someoneelse''\<rparr>, body = b\<rparr>
     uname True = (uname = js ''someoneelse'' \<and> includes_str b generatedByBotNote)"
  by (auto simp add: isChangesetBotNote_def match_example no_match_example)

section \<open>Changeset detection\<close>

lemma changesetFilePattern_iff:
  "changesetFilePattern s \<longleftrightarrow>
   (\<exists>stem. s = js ''.changeset/'' @ stem @ js ''.md'' \<and> stem \<noteq> [] \<and>
      (\<forall>c \<in> set stem. \<not> isLineTerminator c))"
proof
  assume a: "changesetFilePattern s"
  then obtain r where s: "s = js ''.changeset/'' @ r"
    unfolding changesetFilePattern_def by (auto elim: prefixE)
  have l: "length (js ''.changeset/'') = 11" by (simp add: js_def)
  have d: "drop 11 s = r" unfolding s using l by simp
  from a obtain stem where r: "r = stem @ js ''.md''"
    unfolding changesetFilePattern_def d by (auto elim: suffixE)
  have len: "length s = 14 + length stem" unfolding s r by (simp add: js_def)
  with a have "stem \<noteq> []" unfolding changesetFilePattern_def by auto
  moreover have "take (length s - 14) (drop 11 s) = stem" unfolding d len by (simp add: r)
  with a have "\<forall>c \<in> set stem. \<not> isLineTerminator c"
    unfolding changesetFilePattern_def by (simp add: list_all_iff)
  ultimately show "\<exists>stem. s = js ''.changeset/'' @ stem @ js ''.md'' \<and> stem \<noteq> [] \<and>
      (\<forall>c \<in> set stem. \<not> isLineTerminator c)"
    using s r by blast
next
  assume "\<exists>stem. s = js ''.changeset/'' @ stem @ js ''.md'' \<and> stem \<noteq> [] \<and>
      (\<forall>c \<in> set stem. \<not> isLineTerminator c)"
  then obtain stem where s: "s = js ''.changeset/'' @ stem @ js ''.md''"
    and ne: "stem \<noteq> []" and lt: "\<forall>c \<in> set stem. \<not> isLineTerminator c" by blast
  have l: "length (js ''.changeset/'') = 11" by (simp add: js_def)
  have d: "drop 11 s = stem @ js ''.md''" unfolding s using l by simp
  have len: "length s = 14 + length stem" unfolding s by (simp add: js_def)
  have "prefix (js ''.changeset/'') s" unfolding s by simp
  moreover have "suffix (js ''.md'') (drop 11 s)" unfolding d by (simp add: suffix_def)
  moreover have "length s > 14" using len ne by simp
  moreover have "take (length s - 14) (drop 11 s) = stem" unfolding d len by simp
  ultimately show "changesetFilePattern s"
    unfolding changesetFilePattern_def using lt by (simp add: list_all_iff)
qed

text \<open>
  Claim C8, amended. \<open>hasChangesetBeenAdded\<close> is true exactly when some changed file is
  newly added, has a path that is \<open>.changeset/\<close>, then a non-empty stem free of line
  terminators (line feed, carriage return, U+2028, U+2029), then \<open>.md\<close>, and is not
  \<open>.changeset/README.md\<close>. A rejected fetch of the changes rejects the check.
\<close>

theorem changeset_detection:
  "hasChangesetBeenAdded (Inl e) = Inl e \<and>
   hasChangesetBeenAdded (Inr diff) =
     Inr (\<exists>file \<in> set (changes diff).
            new_file file \<and>
            (\<exists>stem. new_path file = js ''.changeset/'' @ stem @ js ''.md'' \<and> stem \<noteq> [] \<and>
               (\<forall>c \<in> set stem. \<not> isLineTerminator c)) \<and>
            new_path file \<noteq> js ''.changeset/README.md'')"
  unfolding hasChangesetBeenAdded_def
  by (simp add: list_ex_iff changesetFilePattern_iff)

theorem changeset_detection_witness:
  "hasChangesetBeenAdded
     (Inr \<lparr>changes = [\<lparr>new_path = js ''src/index.ts'', new_file = False\<rparr>,
                       \<lparr>new_path = js ''.changeset/foo.md'', new_file = True\<rparr>]\<rparr>) = Inr True \<and>
   hasChangesetBeenAdded
     (Inr \<lparr>changes = [\<lparr>new_path = js ''.changeset/README.md'', new_file = True\<rparr>]\<rparr>) = Inr False \<and>
   hasChangesetBeenAdded
     (Inr \<lparr>changes = [\<lparr>new_path = js ''.changeset/foo.md'', new_file = False\<rparr>]\<rparr>) = Inr False"
proof -
  have "js ''.changeset/foo.md'' = js ''.changeset/'' @ js ''foo'' @ js ''.md'' \<and> js ''foo'' \<noteq> [] \<and>
      (\<forall>c \<in> set (js ''foo''). \<not> isLineTerminator c)"
    by (simp add: js_def isLineTerminator_def)
  then have 1: "\<exists>stem. js ''.changeset/foo.md'' = js ''.changeset/'' @ stem @ js ''.md'' \<and>
      stem \<noteq> [] \<and> (\<forall>c \<in> set stem. \<not> isLineTerminator c)"
    by blast
  show ?thesis
    using 1
      changeset_detection[of JNull "\<lparr>changes = [\<lparr>new_path = js ''src/index.ts'', new_file = False\<rparr>,
                       \<lparr>new_path = js ''.changeset/foo.md'', new_file = True\<rparr>]\<rparr>"]
      changeset_detection[of JNull "\<lparr>changes = [\<lparr>new_path = js ''.changeset/README.md'', new_file = True\<rparr>]\<rparr>"]
      changeset_detection[of JNull "\<lparr>changes = [\<lparr>new_path = js ''.changeset/foo.md'', new_file = False\<rparr>]\<rparr>"]
    by (simp add: js_def)
qed

text \<open>
  The claim as first worded fails: a newly added file under \<open>.changeset/\<close> with the
  \<open>.md\<close> extension, not the README, whose name holds a line feed, does not count.
\<close>

theorem changeset_detection_counterexample:
  "new_file \<lparr>new_path = js ''.changeset/a\<newline>b.md'', new_file = True\<rparr> \<and>
   prefix (js ''.changeset/'') (new_path \<lparr>new_path = js ''.changeset/a\<newline>b.md'', new_file = True\<rparr>) \<and>
   suffix (js ''.md'') (new_path \<lparr>new_path = js ''.changeset/a\<newline>b.md'', new_file = True\<rparr>) \<and>
   new_path \<lparr>new_path = js ''.changeset/a\<newline>b.md'', new_file = True\<rparr> \<noteq> js ''.changeset/README.md'' \<and>
   hasChangesetBeenAdded
     (Inr \<lparr>changes = [\<lparr>new_path = js ''.changeset/a\<newline>b.md'', new_file = True\<rparr>]\<rparr>) = Inr False"
  by (simp add: hasChangesetBeenAdded_def changesetFilePattern_def js_def isLineTerminator_def
      suffix_def)

section \<open>The note locator\<close>

lemma find_filter:
  "find P xs = (case filter P xs of [] \<Rightarrow> None | x # _ \<Rightarrow> Some x)"
  by (induction xs) auto

lemma getNoteInfo_loop_firstMatch:
  "getNoteInfo_loop items uname random = firstMatch uname random items"
proof (induction items uname random rule: getNoteInfo_loop.induct)
  case (1 uname random)
  show ?case by (simp add: firstMatch_def List.map_filter_simps)
next
  case (2 noteable_type n rest uname random)
  then show ?case
    by (auto simp: firstMatch_def List.map_filter_simps isChangesetBotNote_def)
next
  case (3 d rest uname random)
  then show ?case by (simp add: firstMatch_def List.map_filter_simps)
next
  case (4 d ns rest uname random)
  have "find (\<lambda>note. isChangesetBotNote note uname False) ns =
        (case filter (\<lambda>n. username (author n) = uname \<and>
                        includes_str (body n) generatedByBotNote) ns of
           [] \<Rightarrow> None | x # _ \<Rightarrow> Some x)"
    by (simp add: find_filter isChangesetBotNote_def)
  with 4 show ?case
    by (auto simp: firstMatch_def List.map_filter_simps split: list.splits option.splits)
qed

lemma firstMatch_index:
  "firstMatch uname random items = Some info \<longleftrightarrow>
   (\<exists>i < length items. itemMatch uname random (items ! i) = Some info \<and>
      (\<forall>j < i. itemMatch uname random (items ! j) = None))"
proof (induction items)
  case Nil
  show ?case by (simp add: firstMatch_def List.map_filter_simps)
next
  case (Cons a items)
  show ?case
  proof (cases "itemMatch uname random a")
    case None
    then have "firstMatch uname random (a # items) = firstMatch uname random items"
      by (simp add: firstMatch_def List.map_filter_simps)
    moreover have "(\<exists>i < length (a # items). itemMatch uname random ((a # items) ! i) = Some info \<and>
        (\<forall>j < i. itemMatch uname random ((a # items) ! j) = None)) \<longleftrightarrow>
      (\<exists>i < length items. itemMatch uname random (items ! i) = Some info \<and>
        (\<forall>j < i. itemMatch uname random (items ! j) = None))" (is "?L \<longleftrightarrow> ?R")
    proof
      assume ?L
      then obtain i where i: "i < length (a # items)"
        "itemMatch uname random ((a # items) ! i) = Some info"
        "\<forall>j < i. itemMatch uname random ((a # items) ! j) = None" by blast
      with None obtain k where k: "i = Suc k" by (cases i) auto
      with i have "k < length items" "itemMatch uname random (items ! k) = Some info" by auto
      moreover have "\<forall>j < k. itemMatch uname random (items ! j) = None"
      proof (intro allI impI)
        fix j assume "j < k"
        then have "Suc j < i" using k by simp
        with i(3) have "itemMatch uname random ((a # items) ! Suc j) = None" by blast
        then show "itemMatch uname random (items ! j) = None" by simp
      qed
      ultimately show ?R by blast
    next
      assume ?R
      then obtain k where k: "k < length items"
        "itemMatch uname random (items ! k) = Some info"
        "\<forall>j < k. itemMatch uname random (items ! j) = None" by blast
      have "\<forall>j < Suc k. itemMatch uname random ((a # items) ! j) = None"
      proof (intro allI impI)
        fix j assume "j < Suc k"
        then show "itemMatch uname random ((a # items) ! j) = None"
          using None k(3) by (cases j) auto
      qed
      with k show ?L by (intro exI[of _ "Suc k"]) auto
    qed
    ultimately show ?thesis using Cons by simp
  next
    case (Some h)
    then have "firstMatch uname random (a # items) = Some h"
      by (simp add: firstMatch_def List.map_filter_simps)
    moreover have "(\<exists>i < length (a # items). itemMatch uname random ((a # items) ! i) = Some info \<and>
        (\<forall>j < i. itemMatch uname random ((a # items) ! j) = None)) \<longleftrightarrow> h = info"
    proof
      assume "\<exists>i < length (a # items). itemMatch uname random ((a # items) ! i) = Some info \<and>
        (\<forall>j < i. itemMatch uname random ((a # items) ! j) = None)"
      then obtain i where i: "itemMatch uname random ((a # items) ! i) = Some info"
        "\<forall>j < i. itemMatch uname random ((a # items) ! j) = None" by blast
      have "i = 0"
      proof (rule ccontr)
        assume "i \<noteq> 0"
        then have "itemMatch uname random ((a # items) ! 0) = None" using i(2) by blast
        with Some show False by simp
      qed
      with i Some show "h = info" by simp
    next
      assume "h = info"
      with Some show "\<exists>i < length (a # items). itemMatch uname random ((a # items) ! i) = Some info \<and>
        (\<forall>j < i. itemMatch uname random ((a # items) ! j) = None)"
        by (intro exI[of _ 0]) simp
    qed
    ultimately show ?thesis by auto
  qed
qed

lemma map_filter_Nil_iff: "List.map_filter f xs = [] \<longleftrightarrow> (\<forall>x \<in> set xs. f x = None)"
  by (induction xs) (auto simp: List.map_filter_simps split: option.splits)

lemma firstMatch_None_iff:
  "firstMatch uname random items = None \<longleftrightarrow>
   (\<forall>item \<in> set items. itemMatch uname random item = None)"
proof -
  have "firstMatch uname random items = None \<longleftrightarrow>
      List.map_filter (itemMatch uname random) items = []"
    by (simp add: firstMatch_def split: list.splits)
  then show ?thesis by (simp add: map_filter_Nil_iff)
qed

lemma firstMatch_Some_mem:
  assumes "firstMatch uname random items = Some info"
  shows "\<exists>item \<in> set items. itemMatch uname random item = Some info"
proof -
  from assms have "info \<in> set (List.map_filter (itemMatch uname random) items)"
    by (auto simp: firstMatch_def split: list.splits)
  then show ?thesis
    by (auto simp: List.map_filter_def)
qed

lemma itemMatch_random:
  "itemMatch uname False item = Some info \<Longrightarrow> itemMatch uname True item = Some info"
  by (cases "(uname, False, item)" rule: itemMatch.cases) (auto split: if_splits)

lemma getNoteInfo_firstMatch:
  "getNoteInfo api commentType False =
     (case listing api commentType of
        Inl e \<Rightarrow> Inl e
      | Inr items \<Rightarrow>
          (case getUsername api of
             Inl e \<Rightarrow> Inl e
           | Inr uname \<Rightarrow>
               Inr (case firstMatch uname False items of
                      Some info \<Rightarrow> Some info
                    | None \<Rightarrow> firstMatch uname True items)))"
  by (simp add: listing_def getNoteInfo_loop_firstMatch split: sum.splits option.splits)

lemma getNoteInfo_result:
  assumes "getNoteInfo api commentType False = Inr noteInfo"
  shows "\<exists>items uname. listing api commentType = Inr items \<and> getUsername api = Inr uname \<and>
     (case noteInfo of
        Some info \<Rightarrow> \<exists>item \<in> set items. itemMatch uname True item = Some info
      | None \<Rightarrow> \<forall>item \<in> set items. itemMatch uname True item = None)"
proof -
  from assms obtain items where l: "listing api commentType = Inr items"
    unfolding getNoteInfo_firstMatch by (cases "listing api commentType") auto
  from assms l obtain uname where u: "getUsername api = Inr uname"
    unfolding getNoteInfo_firstMatch by (cases "getUsername api") auto
  from assms l u have n: "noteInfo = (case firstMatch uname False items of
                          Some info \<Rightarrow> Some info
                        | None \<Rightarrow> firstMatch uname True items)"
    unfolding getNoteInfo_firstMatch by simp
  have "case noteInfo of
        Some info \<Rightarrow> \<exists>item \<in> set items. itemMatch uname True item = Some info
      | None \<Rightarrow> \<forall>item \<in> set items. itemMatch uname True item = None"
  proof (cases "firstMatch uname False items")
    case None
    with n have e: "firstMatch uname True items = noteInfo" by simp
    show ?thesis
    proof (cases noteInfo)
      case None
      with e show ?thesis by (simp add: firstMatch_None_iff)
    next
      case (Some info)
      with e firstMatch_Some_mem[of uname True items info] show ?thesis by simp
    qed
  next
    case (Some info)
    with n have "noteInfo = Some info" by simp
    moreover from Some obtain item where "item \<in> set items"
      "itemMatch uname False item = Some info"
      using firstMatch_Some_mem by blast
    ultimately show ?thesis by (auto dest: itemMatch_random)
  qed
  with l u show ?thesis by blast
qed

text \<open>
  Claim C2. \<open>getNoteInfo\<close> reads the listing of the comment type and the bot username (a
  failure of either is the failure of the call) and scans in two passes. The first pass
  takes the first item of the listing that matches with exact usernames only; if it finds
  none, the whole scan runs once more, now also accepting the randomized pattern on flat
  notes, while nested notes of a discussion are still matched by exact username only; if
  that pass finds none either, the result is null. In each pass the item that wins is
  the one that matches at the least index of the listing.
\<close>

theorem getNoteInfo_two_pass:
  "getNoteInfo api commentType False =
     (case listing api commentType of
        Inl e \<Rightarrow> Inl e
      | Inr items \<Rightarrow>
          (case getUsername api of
             Inl e \<Rightarrow> Inl e
           | Inr uname \<Rightarrow>
               Inr (case firstMatch uname False items of
                      Some info \<Rightarrow> Some info
                    | None \<Rightarrow> firstMatch uname True items))) \<and>
   (firstMatch uname random items = Some info \<longleftrightarrow>
      (\<exists>i < length items. itemMatch uname random (items ! i) = Some info \<and>
         (\<forall>j < i. itemMatch uname random (items ! j) = None)))"
  using getNoteInfo_firstMatch firstMatch_index by blast

theorem getNoteInfo_two_pass_witness:
  "listing exampleApi (js ''note'') =
     Inr [MergeRequestNote (js ''MergeRequest'')
            \<lparr>note_id = 41, author = \<lparr>username = js ''alice''\<rparr>, body = js ''LGTM''\<rparr>,
          MergeRequestNote (js ''MergeRequest'')
            \<lparr>note_id = 42, author = \<lparr>username = js ''project_1_bot_x9''\<rparr>,
             body = js ''__Generated By Changesets GitLab Bot__''\<rparr>] \<and>
   getUsername exampleApi = Inr (js ''project_1_bot'') \<and>
   firstMatch (js ''project_1_bot'') False
     [MergeRequestNote (js ''MergeRequest'')
        \<lparr>note_id = 41, author = \<lparr>username = js ''alice''\<rparr>, body = js ''LGTM''\<rparr>,
      MergeRequestNote (js ''MergeRequest'')
        \<lparr>note_id = 42, author = \<lparr>username = js ''project_1_bot_x9''\<rparr>,
         body = js ''__Generated By Changesets GitLab Bot__''\<rparr>] = None \<and>
   getNoteInfo exampleApi (js ''note'') False =
     Inr (Some \<lparr>discussionId = None, noteId = 42\<rparr>)"
proof -
  have n: "js ''alice'' \<noteq> js ''project_1_bot''" "js ''project_1_bot_x9'' \<noteq> js ''project_1_bot''"
    "js ''note'' \<noteq> js ''discussion''"
    by (simp_all add: js_def)
  have m: "includes_str (js ''__Generated By Changesets GitLab Bot__'') generatedByBotNote"
    "\<not> includes_str (js ''LGTM'') generatedByBotNote"
    by (simp_all add: includes_str_def generatedByBotNote_def js_def sublist_code)
  have p: "RANDOM_BOT_NAME_PATTERN (js ''project_1_bot_x9'') = Some (js ''project_1_bot'')"
    by (simp add: RANDOM_BOT_NAME_PATTERN_def stripScope_def randomSuffix_def js_def class_defs
        Let_def)
  show ?thesis
    using getNoteInfo_two_pass[of exampleApi "js ''note''"] n m p
    by (simp add: listing_def exampleApi_def firstMatch_def List.map_filter_simps)
qed

section \<open>The release-plan block\<close>

lemma getReleasePlanMessage_no_changesets:
  "changesets plan = [] \<Longrightarrow>
   prefix (js ''<details><summary>This MR includes no changesets</summary>'')
     (getReleasePlanMessage t (Some plan))"
  by (simp add: getReleasePlanMessage_def js_def)

lemma getAbsentMessage_includes_block:
  "includes_str (getReleasePlanMessage t plan) x \<Longrightarrow>
   includes_str (getAbsentMessage t sha url plan) x"
  unfolding getAbsentMessage_def includes_str_def sublist_def
  by (metis append.assoc)

text \<open>
  Claim C6, amended. For every commit and link, when the release plan is null the absent
  message holds no release-plan block at all: \<open>getReleasePlanMessage\<close> returns the empty
  string, so the message is its fixed text with nothing between the explanation and the
  links. The collapsible summary stating \<open>no changesets\<close> is rendered for a plan that is
  not null and has an empty changeset list.
\<close>

theorem absent_null_plan:
  "getReleasePlanMessage t None = [] \<and>
   getAbsentMessage t sha url None =
     js ''###  '' @ [0x26A0, 0xFE0F] @ js ''  No Changeset found\<newline>\<newline>Latest commit: '' @ sha @
     js ''\<newline>\<newline>Merging this MR will not cause a version bump for any packages. If these changes should not result in a new version, you're good to go. **If these changes should result in a version bump, you need to add a changeset.**\<newline>\<newline>\<newline>\<newline>[Click here to learn what changesets are, and how to add one](https://github.com/changesets/changesets/blob/master/docs/adding-a-changeset.md).\<newline>\<newline>[Click here if you're a maintainer who wants to add a changeset to this MR]('' @
     url @ js '')\<newline>\<newline>__Generated By Changesets GitLab Bot__\<newline>'' \<and>
   (changesets plan = [] \<longrightarrow>
      includes_str (getAbsentMessage t sha url (Some plan))
        (js ''<details><summary>This MR includes no changesets</summary>''))"
proof -
  have 1: "getReleasePlanMessage t None = []" by (simp add: getReleasePlanMessage_def)
  have 2: "getAbsentMessage t sha url None =
     js ''###  '' @ [0x26A0, 0xFE0F] @ js ''  No Changeset found\<newline>\<newline>Latest commit: '' @ sha @
     js ''\<newline>\<newline>Merging this MR will not cause a version bump for any packages. If these changes should not result in a new version, you're good to go. **If these changes should result in a version bump, you need to add a changeset.**\<newline>\<newline>\<newline>\<newline>[Click here to learn what changesets are, and how to add one](https://github.com/changesets/changesets/blob/master/docs/adding-a-changeset.md).\<newline>\<newline>[Click here if you're a maintainer who wants to add a changeset to this MR]('' @
     url @ js '')\<newline>\<newline>__Generated By Changesets GitLab Bot__\<newline>''"
    by (simp add: getAbsentMessage_def 1 generatedByBotNote_def js_def)
  have 3: "changesets plan = [] \<longrightarrow>
      includes_str (getAbsentMessage t sha url (Some plan))
        (js ''<details><summary>This MR includes no changesets</summary>'')"
  proof
    assume "changesets plan = []"
    then have "includes_str (getReleasePlanMessage t (Some plan))
        (js ''<details><summary>This MR includes no changesets</summary>'')"
      unfolding includes_str_def
      by (intro prefix_imp_sublist getReleasePlanMessage_no_changesets)
    then show "includes_str (getAbsentMessage t sha url (Some plan))
        (js ''<details><summary>This MR includes no changesets</summary>'')"
      by (rule getAbsentMessage_includes_block)
  qed
  from 1 2 3 show ?thesis by blast
qed

theorem absent_null_plan_witness:
  "changesets \<lparr>releases = [], changesets = []\<rparr> = [] \<and>
   includes_str
     (getAbsentMessage (\<lambda>rows. []) (js ''abc123'') (js ''https://gitlab.example.com/new'')
        (Some \<lparr>releases = [], changesets = []\<rparr>))
     (js ''<details><summary>This MR includes no changesets</summary>'')"
  using absent_null_plan[of "\<lambda>rows. []" "js ''abc123''" "js ''https://gitlab.example.com/new''"
      "\<lparr>releases = [], changesets = []\<rparr>"]
  by simp

text \<open>
  The claim as first worded fails: with a null plan the message of a concrete commit and
  link holds neither \<open>no changesets\<close> nor any \<open><details>\<close> block.
\<close>

theorem absent_null_plan_counterexample:
  "\<not> includes_str
       (getAbsentMessage (\<lambda>rows. []) (js ''abc123'') (js ''https://gitlab.example.com/new'') None)
       (js ''no changesets'') \<and>
   \<not> includes_str
       (getAbsentMessage (\<lambda>rows. []) (js ''abc123'') (js ''https://gitlab.example.com/new'') None)
       (js ''<details>'')"
  by (simp add: getAbsentMessage_def getReleasePlanMessage_def generatedByBotNote_def
      includes_str_def js_def sublist_code)

lemma digit_cases:
  assumes "d < 10"
  shows "isDigit (digit d)" and "digit d = 0x31 \<longleftrightarrow> d = 1"
proof -
  from assms have "d \<in> {0, 1, 2, 3, 4, 5, 6, 7, 8, 9}" by auto
  then show "isDigit (digit d)" and "digit d = 0x31 \<longleftrightarrow> d = 1"
    by (auto simp: digit_def isDigit_def)
qed

lemma numberToString_digits: "list_all isDigit (numberToString n)"
proof (induction n rule: numberToString.induct)
  case (1 n)
  show ?case
  proof (cases "n < 10")
    case True
    then have "numberToString n = [digit n]" by (subst numberToString.simps) simp
    with True show ?thesis by (simp add: digit_cases(1))
  next
    case False
    then have e: "numberToString n = numberToString (n div 10) @ [digit (n mod 10)]"
      by (subst numberToString.simps) simp
    from 1 False have "list_all isDigit (numberToString (n div 10))" by simp
    moreover have "isDigit (digit (n mod 10))" by (simp add: digit_cases(1))
    ultimately show ?thesis unfolding e by simp
  qed
qed

lemma numberToString_nonempty: "numberToString n \<noteq> []"
  by (subst numberToString.simps) simp

lemma numberToString_two:
  assumes "\<not> n < 10"
  shows "\<exists>a b r. numberToString n = a # b # r \<and> isDigit b"
proof -
  from assms have e: "numberToString n = numberToString (n div 10) @ [digit (n mod 10)]"
    by (subst numberToString.simps) simp
  obtain a r' where r': "numberToString (n div 10) = a # r'"
    using numberToString_nonempty by (cases "numberToString (n div 10)") auto
  then obtain b r where "numberToString n = a # b # r"
    unfolding e by (cases r') auto
  moreover from this have "isDigit b"
    using numberToString_digits[of n] by simp
  ultimately show ?thesis by blast
qed

lemma not_one_package:
  assumes "n \<noteq> 1"
  shows "\<not> prefix (0x31 # 0x20 # p) (numberToString n @ 0x20 # q)"
proof (cases "n < 10")
  case True
  then have "numberToString n = [digit n]" by (subst numberToString.simps) simp
  moreover from True assms have "digit n \<noteq> 0x31" by (simp add: digit_cases(2))
  ultimately show ?thesis by simp
next
  case False
  then obtain a b r where "numberToString n = a # b # r" and "isDigit b"
    using numberToString_two by blast
  moreover from this have "b \<noteq> 0x20" by (auto simp: isDigit_def)
  ultimately show ?thesis by simp
qed

lemma typeLabel_defined: "v \<noteq> none \<Longrightarrow> typeLabel v \<noteq> None"
  by (cases v) auto

text \<open>
  Claim C5, amended. For every plan that is not null, the table is built from a header row
  and one row (name, bump type written \<open>Major\<close>, \<open>Minor\<close> or \<open>Patch\<close>) for each
  release whose bump type is not \<open>none\<close>, in the order of the plan, and no cell is
  undefined; the block ends with the table when there is such a release and with the
  placeholder text when there is none. The one-line summary reads
  \<open>This MR includes no changesets\<close> when the changeset list of the plan is empty;
  otherwise it reads \<open>changesets to release 1 package\<close> exactly when one release is not
  \<open>none\<close>, and \<open>changesets to release N packages\<close> when zero or at least two are.
\<close>

theorem release_plan_block:
  "tableRows plan =
     [Some (js ''Name''), Some (js ''Type'')] #
     map (\<lambda>x. [Some (name x), typeLabel (type x)])
       (filter (\<lambda>x. type x \<noteq> none) (releases plan)) \<and>
   typeLabel major = Some (js ''Major'') \<and>
   typeLabel minor = Some (js ''Minor'') \<and>
   typeLabel patch = Some (js ''Patch'') \<and>
   (\<forall>row \<in> set (tableRows plan). None \<notin> set row) \<and>
   (filter (\<lambda>x. type x \<noteq> none) (releases plan) \<noteq> [] \<longrightarrow>
      suffix (js ''</summary>\<newline>\<newline>  '' @ t (tableRows plan) @ js ''\<newline>\<newline></details>'')
        (getReleasePlanMessage t (Some plan))) \<and>
   (filter (\<lambda>x. type x \<noteq> none) (releases plan) = [] \<longrightarrow>
      suffix (js ''</summary>\<newline>\<newline>  When changesets are added to this MR, you'll see the packages that this MR includes changesets for and the associated semver types\<newline>\<newline></details>'')
        (getReleasePlanMessage t (Some plan))) \<and>
   (changesets plan = [] \<longrightarrow>
      prefix (js ''<details><summary>This MR includes no changesets</summary>'')
        (getReleasePlanMessage t (Some plan))) \<and>
   (changesets plan \<noteq> [] \<longrightarrow>
      (prefix (js ''<details><summary>This MR includes changesets to release 1 package</summary>'')
         (getReleasePlanMessage t (Some plan)) \<longleftrightarrow>
       length (filter (\<lambda>x. type x \<noteq> none) (releases plan)) = 1)) \<and>
   (changesets plan \<noteq> [] \<and> length (filter (\<lambda>x. type x \<noteq> none) (releases plan)) \<noteq> 1 \<longrightarrow>
      prefix (js ''<details><summary>This MR includes changesets to release '' @
              numberToString (length (filter (\<lambda>x. type x \<noteq> none) (releases plan))) @
              js '' packages</summary>'')
        (getReleasePlanMessage t (Some plan)))"
proof -
  let ?pub = "filter (\<lambda>x. type x \<noteq> none) (releases plan)"
  let ?msg = "getReleasePlanMessage t (Some plan)"
  have p: "publishableReleases plan = ?pub" by (simp add: publishableReleases_def)
  have 1: "tableRows plan =
     [Some (js ''Name''), Some (js ''Type'')] #
     map (\<lambda>x. [Some (name x), typeLabel (type x)]) ?pub"
    by (simp add: tableRows_def p)
  have 2: "\<forall>row \<in> set (tableRows plan). None \<notin> set row"
    unfolding 1 by (auto dest: typeLabel_defined[symmetric, THEN notE])
  have 3: "?pub \<noteq> [] \<longrightarrow>
      suffix (js ''</summary>\<newline>\<newline>  '' @ t (tableRows plan) @ js ''\<newline>\<newline></details>'') ?msg"
    by (auto simp: getReleasePlanMessage_def p suffix_def)
  have 4: "?pub = [] \<longrightarrow>
      suffix (js ''</summary>\<newline>\<newline>  When changesets are added to this MR, you'll see the packages that this MR includes changesets for and the associated semver types\<newline>\<newline></details>'') ?msg"
    by (auto simp: getReleasePlanMessage_def p suffix_def js_def)
  have 5: "changesets plan = [] \<longrightarrow>
      prefix (js ''<details><summary>This MR includes no changesets</summary>'') ?msg"
    by (simp add: getReleasePlanMessage_def js_def)
  have A: "js ''<details><summary>This MR includes changesets to release 1 package</summary>'' =
      js ''<details><summary>This MR includes '' @ js ''changesets to release '' @
      0x31 # 0x20 # js ''package</summary>''"
    by (simp add: js_def)
  have 6: "changesets plan \<noteq> [] \<longrightarrow>
      (prefix (js ''<details><summary>This MR includes changesets to release 1 package</summary>'')
         ?msg \<longleftrightarrow> length ?pub = 1)"
  proof
    assume c: "changesets plan \<noteq> []"
    show "prefix (js ''<details><summary>This MR includes changesets to release 1 package</summary>'')
         ?msg \<longleftrightarrow> length ?pub = 1"
    proof (cases "length ?pub = 1")
      case True
      with c show ?thesis
        unfolding A by (simp add: getReleasePlanMessage_def p) (simp add: js_def)
    next
      case False
      have "\<not> prefix (0x31 # 0x20 # js ''package</summary>'')
          (numberToString (length ?pub) @ 0x20 # (js ''packages'' @ js ''</summary>\<newline>\<newline>  '' @
            (if 0 < length ?pub then t (tableRows plan) else js ''When changesets are added to this MR, you'll see the packages that this MR includes changesets for and the associated semver types'') @
            js ''\<newline>\<newline></details>''))"
        using False by (rule not_one_package)
      moreover have "js '' packages'' = 0x20 # js ''packages''" by (simp add: js_def)
      ultimately show ?thesis
        using c False unfolding A by (simp add: getReleasePlanMessage_def p)
    qed
  qed
  have B: "js ''<details><summary>This MR includes changesets to release '' =
      js ''<details><summary>This MR includes '' @ js ''changesets to release ''"
    by (simp add: js_def)
  have C: "js '' packages</summary>'' = js '' packages'' @ js ''</summary>''"
    "js ''</summary>\<newline>\<newline>  '' = js ''</summary>'' @ js ''\<newline>\<newline>  ''"
    by (simp_all add: js_def)
  have 7: "changesets plan \<noteq> [] \<and> length ?pub \<noteq> 1 \<longrightarrow>
      prefix (js ''<details><summary>This MR includes changesets to release '' @
              numberToString (length ?pub) @ js '' packages</summary>'') ?msg"
    by (simp add: getReleasePlanMessage_def p B C)
  from 1 2 3 4 5 6 7 show ?thesis by simp
qed

theorem release_plan_block_witness:
  "tableRows
     \<lparr>releases = [\<lparr>name = js ''a'', type = none\<rparr>, \<lparr>name = js ''b'', type = minor\<rparr>],
      changesets = [js ''quick-fox'']\<rparr> =
     [[Some (js ''Name''), Some (js ''Type'')], [Some (js ''b''), Some (js ''Minor'')]] \<and>
   suffix (js ''</summary>\<newline>\<newline>  '' @ js ''| b | Minor |'' @ js ''\<newline>\<newline></details>'')
     (getReleasePlanMessage (\<lambda>rows. js ''| b | Minor |'')
        (Some \<lparr>releases = [\<lparr>name = js ''a'', type = none\<rparr>, \<lparr>name = js ''b'', type = minor\<rparr>],
               changesets = [js ''quick-fox'']\<rparr>)) \<and>
   prefix (js ''<details><summary>This MR includes changesets to release 1 package</summary>'')
     (getReleasePlanMessage (\<lambda>rows. js ''| b | Minor |'')
        (Some \<lparr>releases = [\<lparr>name = js ''a'', type = none\<rparr>, \<lparr>name = js ''b'', type = minor\<rparr>],
               changesets = [js ''quick-fox'']\<rparr>)) \<and>
   prefix (js ''<details><summary>This MR includes changesets to release '' @ numberToString 0 @
           js '' packages</summary>'')
     (getReleasePlanMessage (\<lambda>rows. [])
        (Some \<lparr>releases = [\<lparr>name = js ''a'', type = none\<rparr>], changesets = [js ''quick-fox'']\<rparr>)) \<and>
   prefix (js ''<details><summary>This MR includes no changesets</summary>'')
     (getReleasePlanMessage (\<lambda>rows. [])
        (Some \<lparr>releases = [\<lparr>name = js ''a'', type = major\<rparr>], changesets = []\<rparr>))"
  using
    release_plan_block[of
      "\<lparr>releases = [\<lparr>name = js ''a'', type = none\<rparr>, \<lparr>name = js ''b'', type = minor\<rparr>],
        changesets = [js ''quick-fox'']\<rparr>" "\<lambda>rows. js ''| b | Minor |''"]
    release_plan_block[of
      "\<lparr>releases = [\<lparr>name = js ''a'', type = none\<rparr>], changesets = [js ''quick-fox'']\<rparr>"
      "\<lambda>rows. []"]
    release_plan_block[of
      "\<lparr>releases = [\<lparr>name = js ''a'', type = major\<rparr>], changesets = []\<rparr>" "\<lambda>rows. []"]
  by simp

text \<open>
  The claim as first worded fails: for the empty plan (no release, no changeset) the
  number of releases that are not \<open>none\<close> is zero, and the summary reads
  \<open>no changesets\<close>, not \<open>0 packages\<close>.
\<close>

theorem release_plan_block_counterexample:
  "length (filter (\<lambda>x. type x \<noteq> none) (releases \<lparr>releases = [], changesets = []\<rparr>)) = 0 \<and>
   getReleasePlanMessage (\<lambda>rows. []) (Some \<lparr>releases = [], changesets = []\<rparr>) =
     js ''<details><summary>This MR includes no changesets</summary>\<newline>\<newline>  When changesets are added to this MR, you'll see the packages that this MR includes changesets for and the associated semver types\<newline>\<newline></details>'' \<and>
   \<not> includes_str (getReleasePlanMessage (\<lambda>rows. []) (Some \<lparr>releases = [], changesets = []\<rparr>))
       (js ''0 packages'')"
  by (simp add: getReleasePlanMessage_def publishableReleases_def includes_str_def js_def
      sublist_code)

section \<open>The run\<close>

lemma comment_in_try:
  assumes "CI_MERGE_REQUEST_SOURCE_BRANCH_NAME (env w) = Some b" and "b \<noteq> []"
    and "\<not> startsWith b (js ''changeset-release'')" and "createApi w = Inr api"
  shows "comment w =
     (case tryBlock w b api of
        (hl, Inl err) \<Rightarrow> \<lparr>calls = [], logs = hl @ catchBlock err, settled = Inl err\<rparr>
      | (hl, Inr call) \<Rightarrow> \<lparr>calls = [call], logs = hl, settled = respond api call\<rparr>)"
  using assms by (simp add: comment_def)

lemmas example_defs = exampleWorld_def exampleEnv_def exampleApi_def

lemma tryBlock_switch:
  assumes "getNoteInfo api (GITLAB_COMMENT_TYPE (env w)) False = Inr noteInfo"
    and "hasChangesetBeenAdded (MergeRequests_showChanges api) = Inr hasChangeset"
    and "addChangesetUrl_of (env w) b (humanId w) (changedPackages (fst (discovery w api))) =
           Inr url"
  shows "tryBlock w b api =
     (fst (snd (discovery w api)),
      if GITLAB_COMMENT_TYPE (env w) = js ''discussion''
      then (case noteInfo of
              Some info \<Rightarrow>
                Inr (MergeRequestDiscussions_editNote (projectId w) (CI_MERGE_REQUEST_IID (env w))
                       (discussionId info) (noteId info)
                       (prComment_of (markdownTable w) hasChangeset
                          (CI_MERGE_REQUEST_SOURCE_BRANCH_SHA (env w)) url
                          (releasePlan (fst (discovery w api))) (snd (snd (discovery w api)))))
            | None \<Rightarrow>
                Inr (MergeRequestDiscussions_create (projectId w) (CI_MERGE_REQUEST_IID (env w))
                       (prComment_of (markdownTable w) hasChangeset
                          (CI_MERGE_REQUEST_SOURCE_BRANCH_SHA (env w)) url
                          (releasePlan (fst (discovery w api))) (snd (snd (discovery w api))))))
      else if GITLAB_COMMENT_TYPE (env w) = js ''note''
      then (case noteInfo of
              Some info \<Rightarrow>
                Inr (MergeRequestNotes_edit (projectId w) (CI_MERGE_REQUEST_IID (env w))
                       (noteId info)
                       (prComment_of (markdownTable w) hasChangeset
                          (CI_MERGE_REQUEST_SOURCE_BRANCH_SHA (env w)) url
                          (releasePlan (fst (discovery w api))) (snd (snd (discovery w api)))))
            | None \<Rightarrow>
                Inr (MergeRequestNotes_create (projectId w) (CI_MERGE_REQUEST_IID (env w))
                       (prComment_of (markdownTable w) hasChangeset
                          (CI_MERGE_REQUEST_SOURCE_BRANCH_SHA (env w)) url
                          (releasePlan (fst (discovery w api))) (snd (snd (discovery w api))))))
      else Inl (invalidCommentType (GITLAB_COMMENT_TYPE (env w))))"
proof -
  obtain d hl e where d: "discovery w api = (d, hl, e)" by (cases "discovery w api")
  show ?thesis
    using assms unfolding tryBlock_def d by (cases noteInfo) (simp_all add: Let_def)
qed

lemma example_marker:
  "includes_str (js ''__Generated By Changesets GitLab Bot__'') generatedByBotNote"
  "\<not> includes_str (js ''LGTM'') generatedByBotNote"
  by (simp_all add: includes_str_def generatedByBotNote_def js_def sublist_code)

lemma example_pattern:
  "RANDOM_BOT_NAME_PATTERN (js ''project_1_bot_x9'') = Some (js ''project_1_bot'')"
  by (simp add: RANDOM_BOT_NAME_PATTERN_def stripScope_def randomSuffix_def js_def
      isDigit_def isUpper_def isLower_def isAlnum_def isWordChar_def asciiUpper_def Let_def)

lemma example_getNoteInfo:
  assumes "t \<noteq> js ''discussion''"
  shows "getNoteInfo exampleApi t False = Inr (Some \<lparr>discussionId = None, noteId = 42\<rparr>)"
proof -
  have n: "js ''alice'' \<noteq> js ''project_1_bot''" "js ''project_1_bot_x9'' \<noteq> js ''project_1_bot''"
    by (simp_all add: js_def)
  show ?thesis
    using assms n
    by (simp add: exampleApi_def isChangesetBotNote_def example_marker example_pattern)
qed

lemma example_hasChangeset:
  "hasChangesetBeenAdded (MergeRequests_showChanges exampleApi) = Inr True"
  by (simp add: hasChangesetBeenAdded_def exampleApi_def changesetFilePattern_def
      isLineTerminator_def js_def suffix_def)

lemma example_reach:
  "CI_MERGE_REQUEST_SOURCE_BRANCH_NAME exampleEnv = Some (js ''feature'')"
  "js ''feature'' \<noteq> []"
  "\<not> startsWith (js ''feature'') (js ''changeset-release'')"
  "js ''note'' \<noteq> js ''discussion''"
  "js ''foo'' \<noteq> js ''discussion''"
  "js ''foo'' \<noteq> js ''note''"
  by (simp_all add: exampleEnv_def startsWith_def js_def)




lemmas uri_defs = uriUnreserved_def isLeadSurrogate_def isTrailSurrogate_def isAlnum_def
  isDigit_def isUpper_def isLower_def percentEncode_def utf8_def hexDigit_def prepend_def














lemma example_url:
  assumes "CI_MERGE_REQUEST_TITLE e = js ''Fix''"
    and "CI_MERGE_REQUEST_PROJECT_URL e = js ''https://gitlab.example.com/g/p''"
    and "GITLAB_ADD_CHANGESET_MESSAGE e = None"
  shows "addChangesetUrl_of e (js ''feature'') (js ''tidy-cats-sing'') [js ''pkg''] =
      Inr (js ''https://gitlab.example.com/g/p/-/new/feature?file_name=.changeset/tidy-cats-sing.md&file=---%0A%22pkg%22%3A%20patch%0A---%0A%0AFix%0A'')"
    and "addChangesetUrl_of e (js ''feature'') (js ''tidy-cats-sing'') [js ''@fake-scope/fake-pkg''] =
      Inr (js ''https://gitlab.example.com/g/p/-/new/feature?file_name=.changeset/tidy-cats-sing.md&file=---%0A%22%40fake-scope%2Ffake-pkg%22%3A%20patch%0A---%0A%0AFix%0A'')"
  by (simp_all add: addChangesetUrl_of_def getNewChangesetTemplate_def assms js_def uri_defs)

lemma comment_reaches_write:
  assumes "CI_MERGE_REQUEST_SOURCE_BRANCH_NAME (env w) = Some b" and "b \<noteq> []"
    and "\<not> startsWith b (js ''changeset-release'')"
    and "createApi w = Inr api"
    and "getNoteInfo api (GITLAB_COMMENT_TYPE (env w)) False = Inr noteInfo"
    and "hasChangesetBeenAdded (MergeRequests_showChanges api) = Inr hasChangeset"
    and "addChangesetUrl_of (env w) b (humanId w) (changedPackages (fst (discovery w api))) =
           Inr url"
    and "GITLAB_COMMENT_TYPE (env w) = js ''discussion'' \<or> GITLAB_COMMENT_TYPE (env w) = js ''note''"
    and "prComment = prComment_of (markdownTable w) hasChangeset
                  (CI_MERGE_REQUEST_SOURCE_BRANCH_SHA (env w)) url
                  (releasePlan (fst (discovery w api))) (snd (snd (discovery w api)))"
  shows "calls (comment w) =
       [case noteInfo of
          Some info \<Rightarrow>
            if GITLAB_COMMENT_TYPE (env w) = js ''discussion''
            then MergeRequestDiscussions_editNote (projectId w) (CI_MERGE_REQUEST_IID (env w))
                   (discussionId info) (noteId info) prComment
            else MergeRequestNotes_edit (projectId w) (CI_MERGE_REQUEST_IID (env w))
                   (noteId info) prComment
        | None \<Rightarrow>
            if GITLAB_COMMENT_TYPE (env w) = js ''discussion''
            then MergeRequestDiscussions_create (projectId w) (CI_MERGE_REQUEST_IID (env w)) prComment
            else MergeRequestNotes_create (projectId w) (CI_MERGE_REQUEST_IID (env w)) prComment]"
    and "settled (comment w) = respond api (hd (calls (comment w)))"
    and "logs (comment w) = fst (snd (discovery w api))"
  using assms(8,9)
  unfolding comment_in_try[OF assms(1-4)] tryBlock_switch[OF assms(5-7)]
  by (cases noteInfo; auto)+

text \<open>
  Claim C1. A run reaches the write step when the branch is set and is not a release
  branch, the client is created, the locator, the changeset check and the building of the
  deep link all succeed, and the comment type is one of the two kinds. Every such run
  performs exactly one write call, and the promise of \<open>comment()\<close> settles as that call
  does. If the locator returned a handle, the call edits the note of the handle
  (\<open>editNote\<close> on the discussion, or \<open>edit\<close> on the note) and nothing is created; if it
  returned null, the call creates one discussion or note. The body written holds the
  marker. The handle, when there is one, is the match of an item of the listing (a note
  of the bot, by exact username or by the randomized pattern, whose body holds the
  marker); when there is none, no item of the listing matches. The deep link is built
  whenever the title, the package names and the commit message are well formed
  (\<open>addChangesetUrl_of_ok\<close>).
\<close>

theorem comment_single_write:
  assumes "CI_MERGE_REQUEST_SOURCE_BRANCH_NAME (env w) = Some b" and "b \<noteq> []"
    and "\<not> startsWith b (js ''changeset-release'')"
    and "createApi w = Inr api"
    and "getNoteInfo api (GITLAB_COMMENT_TYPE (env w)) False = Inr noteInfo"
    and "hasChangesetBeenAdded (MergeRequests_showChanges api) = Inr hasChangeset"
    and "addChangesetUrl_of (env w) b (humanId w) (changedPackages (fst (discovery w api))) =
           Inr url"
    and "GITLAB_COMMENT_TYPE (env w) = js ''discussion'' \<or> GITLAB_COMMENT_TYPE (env w) = js ''note''"
    and "prComment = prComment_of (markdownTable w) hasChangeset
                  (CI_MERGE_REQUEST_SOURCE_BRANCH_SHA (env w)) url
                  (releasePlan (fst (discovery w api))) (snd (snd (discovery w api)))"
  shows "includes_str prComment generatedByBotNote \<and>
     calls (comment w) =
       [case noteInfo of
          Some info \<Rightarrow>
            if GITLAB_COMMENT_TYPE (env w) = js ''discussion''
            then MergeRequestDiscussions_editNote (projectId w) (CI_MERGE_REQUEST_IID (env w))
                   (discussionId info) (noteId info) prComment
            else MergeRequestNotes_edit (projectId w) (CI_MERGE_REQUEST_IID (env w))
                   (noteId info) prComment
        | None \<Rightarrow>
            if GITLAB_COMMENT_TYPE (env w) = js ''discussion''
            then MergeRequestDiscussions_create (projectId w) (CI_MERGE_REQUEST_IID (env w)) prComment
            else MergeRequestNotes_create (projectId w) (CI_MERGE_REQUEST_IID (env w)) prComment] \<and>
     settled (comment w) = respond api (hd (calls (comment w))) \<and>
     (\<exists>items uname.
        listing api (GITLAB_COMMENT_TYPE (env w)) = Inr items \<and> getUsername api = Inr uname \<and>
        (case noteInfo of
           Some info \<Rightarrow> \<exists>item \<in> set items. itemMatch uname True item = Some info
         | None \<Rightarrow> \<forall>item \<in> set items. itemMatch uname True item = None))"
  using comment_reaches_write(1,2)[OF assms] prComment_marker assms(9)
    getNoteInfo_result[OF assms(5)]
  by blast

theorem comment_single_write_witness:
  "includes_str
     (prComment_of (\<lambda>rows. []) True (js ''abc123'')
        (js ''https://gitlab.example.com/g/p/-/new/feature?file_name=.changeset/tidy-cats-sing.md&file=---%0A%22pkg%22%3A%20patch%0A---%0A%0AFix%0A'')
        None [])
     generatedByBotNote \<and>
   calls (comment exampleWorld) =
     [MergeRequestNotes_edit (js ''g/p'') (js ''7'') 42
        (prComment_of (\<lambda>rows. []) True (js ''abc123'')
           (js ''https://gitlab.example.com/g/p/-/new/feature?file_name=.changeset/tidy-cats-sing.md&file=---%0A%22pkg%22%3A%20patch%0A---%0A%0AFix%0A'')
           None [])] \<and>
   settled (comment exampleWorld) = Inr JNull"
proof -
  let ?url = "js ''https://gitlab.example.com/g/p/-/new/feature?file_name=.changeset/tidy-cats-sing.md&file=---%0A%22pkg%22%3A%20patch%0A---%0A%0AFix%0A''"
  have e: "env exampleWorld = exampleEnv" "createApi exampleWorld = Inr exampleApi"
    "humanId exampleWorld = js ''tidy-cats-sing''" "markdownTable exampleWorld = (\<lambda>rows. [])"
    "projectId exampleWorld = js ''g/p''"
    by (simp_all add: exampleWorld_def)
  have t: "GITLAB_COMMENT_TYPE exampleEnv = js ''note''"
    "CI_MERGE_REQUEST_IID exampleEnv = js ''7''"
    "CI_MERGE_REQUEST_SOURCE_BRANCH_SHA exampleEnv = js ''abc123''"
    by (simp_all add: exampleEnv_def)
  have d: "discovery exampleWorld exampleApi =
      (\<lparr>changedPackages = [js ''pkg''], releasePlan = None\<rparr>, [], [])"
    by (simp add: discovery_def changedPackagesOrFallback_def exampleWorld_def)
  have u: "addChangesetUrl_of exampleEnv (js ''feature'') (js ''tidy-cats-sing'') [js ''pkg''] =
      Inr ?url"
    by (rule example_url(1)) (simp_all add: exampleEnv_def)
  have n: "getNoteInfo exampleApi (js ''note'') False =
      Inr (Some \<lparr>discussionId = None, noteId = 42\<rparr>)"
    by (rule example_getNoteInfo) (rule example_reach(4))
  have r: "respond exampleApi = (\<lambda>call. Inr JNull)" by (simp add: exampleApi_def)
  show ?thesis
    using comment_single_write[of exampleWorld "js ''feature''" exampleApi
        "Some \<lparr>discussionId = None, noteId = 42\<rparr>" True ?url
        "prComment_of (\<lambda>rows. []) True (js ''abc123'') ?url None []"]
      example_reach e t d u n r example_hasChangeset
    by simp
qed

lemma tryBlock_invalid_type:
  assumes "GITLAB_COMMENT_TYPE (env w) \<noteq> js ''discussion''"
    and "GITLAB_COMMENT_TYPE (env w) \<noteq> js ''note''"
  shows "snd (tryBlock w b api) \<noteq> Inr call"
proof -
  obtain d hl e where d: "discovery w api = (d, hl, e)" by (cases "discovery w api")
  show ?thesis
    using assms unfolding tryBlock_def d by (simp add: Let_def split: sum.splits)
qed

lemma comment_invalid_type:
  assumes "GITLAB_COMMENT_TYPE (env w) \<noteq> js ''discussion''"
    and "GITLAB_COMMENT_TYPE (env w) \<noteq> js ''note''"
  shows "calls (comment w) = []"
proof -
  have "\<And>b api hl call. tryBlock w b api \<noteq> (hl, Inr call)"
    using tryBlock_invalid_type[OF assms] by (metis snd_conv)
  then show ?thesis
    unfolding comment_def
    by (auto split: option.splits sum.splits prod.splits)
qed

text \<open>
  Claim C9, amended. For every run whose comment type is neither \<open>discussion\<close> nor
  \<open>note\<close>, no create or edit call is performed. If such a run reaches the write step
  (the branch is set and is not a release branch, the client is created, the locator, the
  changeset check and the building of the deep link all succeed), \<open>comment()\<close> throws the
  error \<open>Invalid comment type "...", should be "discussion" or "note"\<close>.
\<close>

theorem invalid_comment_type:
  assumes "GITLAB_COMMENT_TYPE (env w) \<noteq> js ''discussion''"
    and "GITLAB_COMMENT_TYPE (env w) \<noteq> js ''note''"
  shows "calls (comment w) = [] \<and>
    (CI_MERGE_REQUEST_SOURCE_BRANCH_NAME (env w) = Some b \<and> b \<noteq> [] \<and>
     \<not> startsWith b (js ''changeset-release'') \<and> createApi w = Inr api \<and>
     getNoteInfo api (GITLAB_COMMENT_TYPE (env w)) False = Inr noteInfo \<and>
     hasChangesetBeenAdded (MergeRequests_showChanges api) = Inr hasChangeset \<and>
     addChangesetUrl_of (env w) b (humanId w) (changedPackages (fst (discovery w api))) =
       Inr url \<longrightarrow>
     settled (comment w) =
       Inl (JError PlainError
              (js ''Invalid comment type '' @ [0x22] @ GITLAB_COMMENT_TYPE (env w) @ [0x22] @
               js '', should be '' @ [0x22] @ js ''discussion'' @ [0x22] @ js '' or '' @
               [0x22] @ js ''note'' @ [0x22])
              JUndefined []))"
proof -
  have "calls (comment w) = []" using assms by (rule comment_invalid_type)
  moreover have "CI_MERGE_REQUEST_SOURCE_BRANCH_NAME (env w) = Some b \<and> b \<noteq> [] \<and>
     \<not> startsWith b (js ''changeset-release'') \<and> createApi w = Inr api \<and>
     getNoteInfo api (GITLAB_COMMENT_TYPE (env w)) False = Inr noteInfo \<and>
     hasChangesetBeenAdded (MergeRequests_showChanges api) = Inr hasChangeset \<and>
     addChangesetUrl_of (env w) b (humanId w) (changedPackages (fst (discovery w api))) =
       Inr url \<longrightarrow>
     settled (comment w) =
       Inl (JError PlainError
              (js ''Invalid comment type '' @ [0x22] @ GITLAB_COMMENT_TYPE (env w) @ [0x22] @
               js '', should be '' @ [0x22] @ js ''discussion'' @ [0x22] @ js '' or '' @
               [0x22] @ js ''note'' @ [0x22])
              JUndefined [])"
    using assms by (auto simp: comment_in_try tryBlock_switch invalidCommentType_def)
  ultimately show ?thesis by blast
qed

theorem invalid_comment_type_witness:
  "calls (comment (exampleWorld\<lparr>env := exampleEnv\<lparr>GITLAB_COMMENT_TYPE := js ''foo''\<rparr>\<rparr>)) = [] \<and>
   settled (comment (exampleWorld\<lparr>env := exampleEnv\<lparr>GITLAB_COMMENT_TYPE := js ''foo''\<rparr>\<rparr>)) =
     Inl (JError PlainError
            (js ''Invalid comment type '' @ [0x22] @ js ''foo'' @ [0x22] @
             js '', should be '' @ [0x22] @ js ''discussion'' @ [0x22] @ js '' or '' @
             [0x22] @ js ''note'' @ [0x22])
            JUndefined [])"
proof -
  let ?env = "exampleEnv\<lparr>GITLAB_COMMENT_TYPE := js ''foo''\<rparr>"
  let ?w = "exampleWorld\<lparr>env := ?env\<rparr>"
  let ?url = "js ''https://gitlab.example.com/g/p/-/new/feature?file_name=.changeset/tidy-cats-sing.md&file=---%0A%22pkg%22%3A%20patch%0A---%0A%0AFix%0A''"
  have e: "env ?w = ?env" "createApi ?w = Inr exampleApi"
    "humanId ?w = js ''tidy-cats-sing''"
    by (simp_all add: exampleWorld_def)
  have t: "GITLAB_COMMENT_TYPE ?env = js ''foo''"
    "CI_MERGE_REQUEST_SOURCE_BRANCH_NAME ?env = Some (js ''feature'')"
    by (simp_all add: exampleEnv_def)
  have d: "discovery ?w exampleApi =
      (\<lparr>changedPackages = [js ''pkg''], releasePlan = None\<rparr>, [], [])"
    by (simp add: discovery_def changedPackagesOrFallback_def exampleWorld_def)
  have u: "addChangesetUrl_of ?env (js ''feature'') (js ''tidy-cats-sing'') [js ''pkg''] =
      Inr ?url"
    by (rule example_url(1)) (simp_all add: exampleEnv_def)
  have n: "getNoteInfo exampleApi (js ''foo'') False =
      Inr (Some \<lparr>discussionId = None, noteId = 42\<rparr>)"
    by (rule example_getNoteInfo) (rule example_reach(5))
  show ?thesis
    using invalid_comment_type[of ?w "js ''feature''" exampleApi
        "Some \<lparr>discussionId = None, noteId = 42\<rparr>" True ?url]
      example_reach e t d u n example_hasChangeset
    by simp
qed

text \<open>
  The claim as first worded fails: outside a merge request pipeline (no branch name) a
  run with the comment type \<open>foo\<close> returns without throwing.
\<close>

theorem invalid_comment_type_counterexample:
  "GITLAB_COMMENT_TYPE
     (env (exampleWorld\<lparr>env := exampleEnv\<lparr>CI_MERGE_REQUEST_SOURCE_BRANCH_NAME := None,
                                            GITLAB_COMMENT_TYPE := js ''foo''\<rparr>\<rparr>)) \<noteq>
     js ''discussion'' \<and>
   GITLAB_COMMENT_TYPE
     (env (exampleWorld\<lparr>env := exampleEnv\<lparr>CI_MERGE_REQUEST_SOURCE_BRANCH_NAME := None,
                                            GITLAB_COMMENT_TYPE := js ''foo''\<rparr>\<rparr>)) \<noteq>
     js ''note'' \<and>
   settled (comment (exampleWorld\<lparr>env := exampleEnv\<lparr>CI_MERGE_REQUEST_SOURCE_BRANCH_NAME := None,
                                            GITLAB_COMMENT_TYPE := js ''foo''\<rparr>\<rparr>)) =
     Inr JUndefined"
  by (simp add: comment_def example_defs js_def)

section \<open>Errors caught by the run\<close>

lemma object_type_names:
  "js ''undefined'' \<noteq> js ''object''" "js ''boolean'' \<noteq> js ''object''"
  "js ''number'' \<noteq> js ''object''" "js ''string'' \<noteq> js ''object''"
  by (simp_all add: js_def)







section \<open>Failure of the discovery\<close>



















end
